theory Spec2Isabelle
  imports Main "HOL-Library.Word"
begin

section \<open>Python values and built-ins used by durin\<close>

text \<open>
  Exceptions are values. \<open>DjValidationError\<close> is django.core.exceptions.ValidationError,
  built either from a message or from the exception it wraps.
\<close>

datatype error =
    ValueError
  | KeyError string
  | OverflowError
  | MemoryError
  | AttributeError
  | IntegrityError
  | DatabaseError
  | DjValidationError string
  | DjValidationErrorFrom error

text \<open>
  Python strings are modelled as lists of \<open>char\<close>, read as the code points 0..255.
  Values that are formatted into strings are \<open>None\<close>, integers or strings.
\<close>

datatype pyval = PyNone | PyInt int | PyStr string

subsection \<open>Attributes computed by a method\<close>

text \<open>
  Reading an attribute returns its value and the instance after the read. A \<open>@property\<close>
  runs its method on every read and stores nothing. A \<open>@cached_property\<close> runs its
  method on the first read, stores the value on the instance, and returns the stored
  value on every later read.
\<close>

definition py_property :: "('self \<Rightarrow> 'v) \<Rightarrow> 'self \<Rightarrow> 'v \<times> 'self" where
  "py_property fget self = (fget self, self)"

definition py_cached_property ::
  "('self \<Rightarrow> 'v option) \<Rightarrow> ('self \<Rightarrow> 'v \<Rightarrow> 'self) \<Rightarrow> ('self \<Rightarrow> 'v) \<Rightarrow> 'self \<Rightarrow> 'v \<times> 'self" where
  "py_cached_property stored store fget self =
     (case stored self of
        Some v \<Rightarrow> (v, self)
      | None \<Rightarrow> (let v = fget self in (v, store self v)))"

subsection \<open>str(int)\<close>

definition digit_chr :: "nat \<Rightarrow> char" where
  "digit_chr d = ''0123456789'' ! d"

function digits :: "nat \<Rightarrow> string" where
  "digits n = (if n < 10 then [digit_chr n] else digits (n div 10) @ [digit_chr (n mod 10)])"
  by pat_completeness auto
termination
  by (relation "measure id") auto

declare digits.simps [simp del]

definition str_int :: "int \<Rightarrow> string" where
  "str_int i = (if i < 0 then CHR ''-'' # digits (nat (- i)) else digits (nat i))"

fun py_str :: "pyval \<Rightarrow> string" where
  "py_str PyNone = ''None''"
| "py_str (PyInt i) = str_int i"
| "py_str (PyStr s) = s"

subsection \<open>str.split(sep) for a one-character separator\<close>

fun split_on :: "char \<Rightarrow> string \<Rightarrow> string list" where
  "split_on sep [] = [[]]"
| "split_on sep (c # cs) =
     (if c = sep then [] # split_on sep cs
      else (case split_on sep cs of [] \<Rightarrow> [[c]] | p # ps \<Rightarrow> (c # p) # ps))"

subsection \<open>int(str), base 10\<close>

text \<open>
  CPython strips white space on both sides (for code points below 256: tab, line feed,
  vertical tab, form feed, carriage return, space, U+0085 and U+00A0), reads one optional
  sign, and then needs a digit followed by digits, each optionally preceded by a single
  underscore. A string with more digits than \<open>sys.get_int_max_str_digits()\<close>, 4300 unless
  the interpreter is configured otherwise, is refused as well. Anything refused is a
  ValueError, here \<open>None\<close>.
\<close>

definition py_isspace :: "char \<Rightarrow> bool" where
  "py_isspace c = ((of_char c :: nat) \<in> {9, 10, 11, 12, 13, 32, 133, 160})"

definition is_digit :: "char \<Rightarrow> bool" where
  "is_digit c = (48 \<le> (of_char c :: nat) \<and> (of_char c :: nat) \<le> 57)"

definition digit_val :: "char \<Rightarrow> nat" where
  "digit_val c = of_char c - 48"

definition int_max_str_digits :: nat where
  "int_max_str_digits = 4300"

fun scan_digits :: "nat \<Rightarrow> string \<Rightarrow> nat option" where
  "scan_digits acc [] = Some acc"
| "scan_digits acc [c] = (if is_digit c then Some (10 * acc + digit_val c) else None)"
| "scan_digits acc (c # d # ds) =
     (if is_digit c then scan_digits (10 * acc + digit_val c) (d # ds)
      else if c = CHR ''_'' \<and> is_digit d then scan_digits (10 * acc + digit_val d) ds
      else None)"

definition int_body :: "string \<Rightarrow> nat option" where
  "int_body s =
     (if int_max_str_digits < length (filter is_digit s) then None
      else (case s of [] \<Rightarrow> None
            | c # cs \<Rightarrow> if is_digit c then scan_digits (digit_val c) cs else None))"

definition strip :: "string \<Rightarrow> string" where
  "strip s = rev (dropWhile py_isspace (rev (dropWhile py_isspace s)))"

definition py_int :: "string \<Rightarrow> int option" where
  "py_int s =
     (case strip s of
        [] \<Rightarrow> None
      | c # cs \<Rightarrow>
          if c = CHR ''-'' then map_option (\<lambda>n. - int n) (int_body cs)
          else if c = CHR ''+'' then map_option int (int_body cs)
          else map_option int (int_body (c # cs)))"

section \<open>durin.models: Client and ClientSettings\<close>

type_synonym datetime = int
type_synonym timedelta = int

record client_settings =
  cs_throttle_rate :: "string option"

text \<open>
  \<open>settings\<close> is the reverse accessor of the one-to-one field of ClientSettings:
  \<open>None\<close> when no ClientSettings row points at the client (\<open>hasattr\<close> is false).
  \<open>throttle_rate_cache\<close> is what the instance stores for the cached property
  \<open>throttle_rate\<close>: \<open>None\<close> until the property is first read.
\<close>

record client =
  client_pk :: int
  name :: string
  token_ttl :: timedelta
  settings :: "client_settings option"
  throttle_rate_cache :: "string option option"

definition throttle_rate_fget :: "client \<Rightarrow> string option" where
  "throttle_rate_fget self = (case settings self of Some s \<Rightarrow> cs_throttle_rate s | None \<Rightarrow> None)"

definition throttle_rate :: "client \<Rightarrow> string option \<times> client" where
  "throttle_rate =
     py_cached_property throttle_rate_cache (\<lambda>self v. self\<lparr>throttle_rate_cache := Some v\<rparr>)
       throttle_rate_fget"

section \<open>durin.throttling: UserClientRateThrottle\<close>

text \<open>
  A request carries its user (anonymous, or authenticated with a primary key) and
  possibly the attribute \<open>_auth\<close>. rest_framework sets \<open>_auth\<close> whenever it authenticates a
  request: to \<open>None\<close> when the scheme that accepted the user returns no token (and when no
  scheme accepted one), otherwise to the object the scheme returned, which has a
  \<open>client\<close> only when it comes from durin. A request whose user was assigned by hand has
  no \<open>_auth\<close> at all.
\<close>

datatype user = AnonymousUser | User int

fun is_authenticated :: "user \<Rightarrow> bool" where
  "is_authenticated AnonymousUser = False"
| "is_authenticated (User p) = True"

fun user_pk :: "user \<Rightarrow> pyval" where
  "user_pk AnonymousUser = PyNone"
| "user_pk (User p) = PyInt p"

datatype auth_value = AuthNone | AuthWithoutClient | AuthWithClient client

text \<open>The attribute read \<open>request._auth.client\<close>.\<close>

fun auth_client :: "auth_value \<Rightarrow> error + client" where
  "auth_client AuthNone = Inl AttributeError"
| "auth_client AuthWithoutClient = Inl AttributeError"
| "auth_client (AuthWithClient c) = Inr c"

text \<open>\<open>request_auth\<close> is \<open>None\<close> when the request has no attribute \<open>_auth\<close>.\<close>

record request =
  request_user :: user
  request_auth :: "auth_value option"

definition scope :: string where
  "scope = ''user_per_client''"

text \<open>Python truthiness of an optional string: \<open>None\<close> and the empty string are false.\<close>

fun truthy :: "string option \<Rightarrow> bool" where
  "truthy None = False"
| "truthy (Some s) = (s \<noteq> [])"

text \<open>
  \<open>allow_request\<close> first assigns \<open>self.rate\<close>; this is that assignment. The argument
  \<open>get_rate\<close> is the outcome of the inherited \<open>get_rate()\<close> of rest_framework, which
  reads the rate configured for the scope (or raises); it is only used in the branches
  that call it.
\<close>

definition allow_request_rate :: "(error + string option) \<Rightarrow> request \<Rightarrow> error + string option" where
  "allow_request_rate get_rate req =
     (if is_authenticated (request_user req) then
        (case request_auth req of
           Some a \<Rightarrow>
             (case auth_client a of
                Inl e \<Rightarrow> Inl e
              | Inr c \<Rightarrow>
                  (let rate = fst (throttle_rate c)
                   in if truthy rate then Inr rate else get_rate))
         | None \<Rightarrow> get_rate)
      else get_rate)"

definition get_user_client_ident :: "request \<Rightarrow> error + string" where
  "get_user_client_ident req =
     (case request_auth req of
        None \<Rightarrow> Inl AttributeError
      | Some a \<Rightarrow>
          (case auth_client a of
             Inl e \<Rightarrow> Inl e
           | Inr c \<Rightarrow>
               Inr (''user-'' @ py_str (user_pk (request_user req)) @ ''.client-''
                    @ py_str (PyInt (client_pk c)))))"

text \<open>
  \<open>get_ident\<close> is the outcome of the inherited \<open>get_ident(request)\<close> of rest_framework:
  the identity derived from the caller's network address.
\<close>

definition cache_format :: "string \<Rightarrow> pyval \<Rightarrow> string" where
  "cache_format sc ident = ''throttle_'' @ sc @ ''_'' @ py_str ident"

definition get_cache_key :: "string \<Rightarrow> request \<Rightarrow> error + string" where
  "get_cache_key get_ident req =
     (if is_authenticated (request_user req) then
        (if request_auth req \<noteq> None then
           (case get_user_client_ident req of
              Inl e \<Rightarrow> Inl e
            | Inr ident \<Rightarrow> Inr (cache_format scope (PyStr ident)))
         else Inr (cache_format scope (user_pk (request_user req))))
      else Inr (cache_format scope (PyStr get_ident)))"

definition TIME_PERIODS_MAP :: "string \<rightharpoonup> nat" where
  "TIME_PERIODS_MAP = map_of [(''s'', 1), (''m'', 60), (''h'', 3600), (''d'', 86400)]"

text \<open>The body of the \<open>try\<close> block of \<open>validate_client_throttle_rate\<close>.\<close>

definition validate_try :: "string \<Rightarrow> error + (int \<times> nat)" where
  "validate_try rate =
     (case split_on CHR ''/'' rate of
        [num, period] \<Rightarrow>
          (case py_int num of
             None \<Rightarrow> Inl ValueError
           | Some num_requests \<Rightarrow>
               (case TIME_PERIODS_MAP period of
                  None \<Rightarrow> Inl (KeyError period)
                | Some duration \<Rightarrow> Inr (num_requests, duration)))
      | _ \<Rightarrow> Inl ValueError)"

definition validate_client_throttle_rate :: "string option \<Rightarrow> error + unit" where
  "validate_client_throttle_rate rate =
     (case rate of
        None \<Rightarrow> Inr ()
      | Some r \<Rightarrow>
          (case validate_try r of
             Inr _ \<Rightarrow> Inr ()
           | Inl (KeyError period) \<Rightarrow>
               Inl (DjValidationError (''invalid period '' @ [CHR 0x27] @ period @ [CHR 0x27] @ ''.''))
           | Inl e \<Rightarrow> Inl (DjValidationErrorFrom e)))"

fun is_validation_error :: "error + 'a \<Rightarrow> bool" where
  "is_validation_error (Inl (DjValidationError m)) = True"
| "is_validation_error (Inl (DjValidationErrorFrom e)) = True"
| "is_validation_error _ = False"

section \<open>durin.models: the token string\<close>

text \<open>
  \<open>int(n / 2)\<close>: the division is Python's true division, whose result is the double
  nearest to the quotient (ties to the even significand of 53 bits), and an
  OverflowError when that is no finite double; \<open>int\<close> then truncates towards zero.
  Halving only changes the exponent, so the quotient is the rounded numerator halved.
\<close>

fun bit_length :: "nat \<Rightarrow> nat" where
  "bit_length n = (if n = 0 then 0 else Suc (bit_length (n div 2)))"

declare bit_length.simps [simp del]

definition float_round :: "nat \<Rightarrow> nat" where
  "float_round n =
     (if n < 2 ^ 53 then n
      else
        (let sh = bit_length n - 53;
             q = n div 2 ^ sh;
             r = n mod 2 ^ sh;
             half = 2 ^ (sh - 1)
         in (if half < r \<or> (r = half \<and> odd q) then q + 1 else q) * 2 ^ sh))"

definition int_truediv_2 :: "int \<Rightarrow> error + int" where
  "int_truediv_2 n =
     (let m = float_round (nat \<bar>n\<bar>)
      in if 2 ^ 1025 \<le> m then Inl OverflowError
         else Inr (sgn n * int (m div 2)))"

text \<open>
  What the operating system gives the interpreter: the bytes of its entropy source, and
  \<open>memory\<close>, the largest number of bytes it grants to one object. An object of CPython
  (64-bit) also never holds more than \<open>PY_SSIZE_T_MAX\<close> bytes, and a byte string has a
  header of 33 bytes: a larger request is an OverflowError before memory is asked for.
\<close>

record system =
  entropy :: "nat \<Rightarrow> 8 word"
  memory :: nat

definition PY_SSIZE_T_MAX :: int where
  "PY_SSIZE_T_MAX = 9223372036854775807"

definition alloc_bytes :: "system \<Rightarrow> nat \<Rightarrow> error + unit" where
  "alloc_bytes sys k =
     (if PY_SSIZE_T_MAX - 33 < int k then Inl OverflowError
      else if memory sys < k then Inl MemoryError
      else Inr ())"

text \<open>
  \<open>os.urandom(n)\<close>: an \<open>n\<close> that is no C \<open>ssize_t\<close> is an OverflowError, a negative \<open>n\<close> a
  ValueError; otherwise the result is a byte string of the next \<open>n\<close> bytes of the entropy
  source, when it can be allocated.
\<close>

definition urandom :: "system \<Rightarrow> int \<Rightarrow> error + 8 word list" where
  "urandom sys n =
     (if n < - PY_SSIZE_T_MAX - 1 \<or> PY_SSIZE_T_MAX < n then Inl OverflowError
      else if n < 0 then Inl ValueError
      else (case alloc_bytes sys (nat n) of
              Inl e \<Rightarrow> Inl e
            | Inr _ \<Rightarrow> Inr (map (entropy sys) [0..<nat n])))"

text \<open>
  \<open>binascii.hexlify\<close> writes every byte as two lowercase hexadecimal digits, the high
  half first, into a new byte string of twice the length; \<open>decode\<close> copies that into a
  string.
\<close>

definition hex_chr :: "nat \<Rightarrow> char" where
  "hex_chr d = ''0123456789abcdef'' ! d"

definition hexlify :: "8 word list \<Rightarrow> string" where
  "hexlify bs = concat (map (\<lambda>b. [hex_chr (unat b div 16), hex_chr (unat b mod 16)]) bs)"

definition binascii_hexlify :: "system \<Rightarrow> 8 word list \<Rightarrow> error + string" where
  "binascii_hexlify sys bs =
     (if PY_SSIZE_T_MAX div 2 < int (length bs) then Inl MemoryError
      else (case alloc_bytes sys (2 * length bs) of
              Inl e \<Rightarrow> Inl e
            | Inr _ \<Rightarrow> Inr (hexlify bs)))"

definition decode :: "system \<Rightarrow> string \<Rightarrow> error + string" where
  "decode sys s = (if memory sys < length s then Inl MemoryError else Inr s)"

text \<open>
  \<open>_create_token_string()\<close>; the setting \<open>durin_settings.TOKEN_CHARACTER_LENGTH\<close> and the
  operating system are its inputs.
\<close>

definition create_token_string :: "int \<Rightarrow> system \<Rightarrow> error + string" where
  "create_token_string TOKEN_CHARACTER_LENGTH sys =
     (case int_truediv_2 TOKEN_CHARACTER_LENGTH of
        Inl e \<Rightarrow> Inl e
      | Inr n \<Rightarrow>
          (case urandom sys n of
             Inl e \<Rightarrow> Inl e
           | Inr bs \<Rightarrow>
               (case binascii_hexlify sys bs of
                  Inl e \<Rightarrow> Inl e
                | Inr hex \<Rightarrow> decode sys hex)))"

section \<open>durin.models: UserClient and AuthToken\<close>

text \<open>
  Times are microseconds since the epoch and durations are microseconds. A datetime
  lies between 0001-01-01 00:00:00 and 9999-12-31 23:59:59.999999; adding a timedelta
  that leaves this range raises OverflowError.
\<close>

definition DATETIME_MIN :: datetime where
  "DATETIME_MIN = - 62135596800000000"

definition DATETIME_MAX :: datetime where
  "DATETIME_MAX = 253402300799999999"

definition datetime_add :: "datetime \<Rightarrow> timedelta \<Rightarrow> error + datetime" where
  "datetime_add t d =
     (if DATETIME_MIN \<le> t + d \<and> t + d \<le> DATETIME_MAX then Inr (t + d) else Inl OverflowError)"

record userclient =
  userclient_pk :: int
  userclient_user :: int
  userclient_client :: client

record authtoken =
  authtoken_pk :: int
  token :: string
  created :: datetime
  expiry :: datetime
  userclient :: "userclient option"

text \<open>
  What \<open>token_renewed.send\<close> hands to the receivers of the signal; the token is recorded
  as it is when the signal is sent.
\<close>

record token_renewed =
  sender :: string
  signal_token :: authtoken
  new_expiry :: datetime

text \<open>
  The state the model methods act on: the rows of the two tables, the last key the
  token table's sequence gave out, and the signals sent so far.
\<close>

record world =
  userclient_rows :: "userclient list"
  authtoken_rows :: "authtoken list"
  authtoken_sequence :: int
  signals_sent :: "token_renewed list"

definition owner :: "authtoken \<Rightarrow> int option" where
  "owner t = map_option userclient_pk (userclient t)"

text \<open>
  The INSERT behind \<open>super().create\<close>. The table declares \<open>token\<close> unique, \<open>userclient\<close> a
  one-to-one (hence unique) foreign key, and \<open>created\<close> as \<open>auto_now_add\<close>: it is the
  clock read when the row is saved. A violated constraint is an IntegrityError. The key
  of the new row is the next value of the table's sequence, which only grows: a key is
  not given out again after its row is deleted.
\<close>

definition insert_authtoken ::
  "world \<Rightarrow> datetime \<Rightarrow> string \<Rightarrow> datetime \<Rightarrow> userclient \<Rightarrow> error + (authtoken \<times> world)" where
  "insert_authtoken w now_saved tok exp uc =
     (if tok \<in> set (map token (authtoken_rows w))
         \<or> Some (userclient_pk uc) \<in> set (map owner (authtoken_rows w))
         \<or> userclient_pk uc \<notin> set (map userclient_pk (userclient_rows w))
      then Inl IntegrityError
      else
        (let instance =
               \<lparr>authtoken_pk = authtoken_sequence w + 1, token = tok, created = now_saved,
                expiry = exp, userclient = Some uc\<rparr>
         in Inr (instance,
                 w\<lparr>authtoken_rows := authtoken_rows w @ [instance],
                   authtoken_sequence := authtoken_sequence w + 1\<rparr>)))"

text \<open>
  \<open>AuthTokenManager.create\<close>. \<open>now\<close> is the clock read by \<open>timezone.now()\<close> and
  \<open>now_saved\<close> the later reading taken when the row is saved.
\<close>

definition create ::
  "int \<Rightarrow> system \<Rightarrow> datetime \<Rightarrow> datetime \<Rightarrow> world \<Rightarrow> userclient \<Rightarrow> timedelta option
     \<Rightarrow> error + (authtoken \<times> world)" where
  "create TOKEN_CHARACTER_LENGTH sys now now_saved w uc delta_ttl =
     (case create_token_string TOKEN_CHARACTER_LENGTH sys of
        Inl e \<Rightarrow> Inl e
      | Inr tok \<Rightarrow>
          (case (case delta_ttl of
                   Some d \<Rightarrow> datetime_add now d
                 | None \<Rightarrow> datetime_add now (token_ttl (userclient_client uc))) of
             Inl e \<Rightarrow> Inl e
           | Inr exp \<Rightarrow> insert_authtoken w now_saved tok exp uc))"

text \<open>
  \<open>self.save(update_fields=("expiry",))\<close>: an UPDATE of the expiry column of the row
  with the instance's primary key; a DatabaseError when no row has it.
\<close>

definition save_expiry :: "world \<Rightarrow> authtoken \<Rightarrow> error + world" where
  "save_expiry w self =
     (if authtoken_pk self \<in> set (map authtoken_pk (authtoken_rows w)) then
        Inr (w\<lparr>authtoken_rows :=
                 map (\<lambda>r. if authtoken_pk r = authtoken_pk self then r\<lparr>expiry := expiry self\<rparr> else r)
                   (authtoken_rows w)\<rparr>)
      else Inl DatabaseError)"

text \<open>
  \<open>AuthToken.renew_token\<close>: the result is the returned expiry, the instance after the
  call and the state after it.
\<close>

definition renew_token ::
  "datetime \<Rightarrow> world \<Rightarrow> authtoken \<Rightarrow> string \<Rightarrow> error + (datetime \<times> authtoken \<times> world)" where
  "renew_token now w self renewed_by =
     (case userclient self of
        None \<Rightarrow> Inl AttributeError
      | Some uc \<Rightarrow>
          (case datetime_add now (token_ttl (userclient_client uc)) of
             Inl e \<Rightarrow> Inl e
           | Inr exp \<Rightarrow>
               (let self' = self\<lparr>expiry := exp\<rparr>
                in (case save_expiry w self' of
                      Inl e \<Rightarrow> Inl e
                    | Inr w' \<Rightarrow>
                        Inr (exp, self',
                             w'\<lparr>signals_sent := signals_sent w'
                                  @ [\<lparr>sender = renewed_by, signal_token = self', new_expiry = exp\<rparr>]\<rparr>)))))"

text \<open>
  \<open>AuthToken.has_expired\<close>, a \<open>@property\<close>: \<open>now\<close> is the clock reading of the read.
\<close>

definition has_expired :: "datetime \<Rightarrow> authtoken \<Rightarrow> bool \<times> authtoken" where
  "has_expired now = py_property (\<lambda>self. expiry self < now)"

text \<open>
  Deleting a UserClient row: \<open>on_delete=models.CASCADE\<close> on \<open>AuthToken.userclient\<close>
  deletes the token rows that point at it.
\<close>

definition delete_userclient :: "world \<Rightarrow> userclient \<Rightarrow> world" where
  "delete_userclient w uc =
     w\<lparr>userclient_rows := filter (\<lambda>l. userclient_pk l \<noteq> userclient_pk uc) (userclient_rows w),
       authtoken_rows := filter (\<lambda>t. owner t \<noteq> Some (userclient_pk uc)) (authtoken_rows w)\<rparr>"

text \<open>
  Modelled from the spec: \<open>revoke(token)\<close>, which the models module does not define. The spec
  says it deletes the AuthToken and that revoking a token that no longer exists is a
  no-op.
\<close>

definition revoke :: "world \<Rightarrow> authtoken \<Rightarrow> world" where
  "revoke w tok =
     w\<lparr>authtoken_rows := filter (\<lambda>t. authtoken_pk t \<noteq> authtoken_pk tok) (authtoken_rows w)\<rparr>"

text \<open>
  The relation between tokens and links: every token row points at a stored link, no
  two token rows point at the same link, and links have distinct primary keys.
\<close>

definition link_invariant :: "world \<Rightarrow> bool" where
  "link_invariant w =
     ((\<forall>t \<in> set (authtoken_rows w). \<exists>l \<in> set (userclient_rows w). owner t = Some (userclient_pk l))
      \<and> distinct (map owner (authtoken_rows w))
      \<and> distinct (map userclient_pk (userclient_rows w)))"

text \<open>The keys in use are keys the sequence has given out.\<close>

definition keys_from_sequence :: "world \<Rightarrow> bool" where
  "keys_from_sequence w = (\<forall>t \<in> set (authtoken_rows w). authtoken_pk t \<le> authtoken_sequence w)"

section \<open>A small example state\<close>

definition example_client :: client where
  "example_client = \<lparr>client_pk = 3, name = ''web'', token_ttl = 86400000000, settings = None,
     throttle_rate_cache = None\<rparr>"

definition example_link :: userclient where
  "example_link = \<lparr>userclient_pk = 1, userclient_user = 7, userclient_client = example_client\<rparr>"

definition example_world :: world where
  "example_world = \<lparr>userclient_rows = [example_link], authtoken_rows = [],
     authtoken_sequence = 0, signals_sent = []\<rparr>"

definition example_system :: system where
  "example_system = \<lparr>entropy = (\<lambda>i. if i = 0 then 10 else 255), memory = 1024\<rparr>"

definition example_token :: authtoken where
  "example_token = \<lparr>authtoken_pk = 1, token = ''0aff'', created = 1000001,
     expiry = 864001000000, userclient = Some example_link\<rparr>"

definition example_token_plain :: authtoken where
  "example_token_plain = \<lparr>authtoken_pk = 1, token = ''0aff'', created = 1000001,
     expiry = 86401000000, userclient = Some example_link\<rparr>"

section \<open>Facts about the built-ins\<close>

lemma digit_chr_props: "d < 10 \<Longrightarrow> is_digit (digit_chr d) \<and> digit_val (digit_chr d) = d \<and> \<not> py_isspace (digit_chr d) \<and> digit_chr d \<noteq> CHR ''/'' \<and> digit_chr d \<noteq> CHR ''-'' \<and> digit_chr d \<noteq> CHR ''+''"
proof -
  assume "d < 10"
  then have "d \<in> {0,1,2,3,4,5,6,7,8,9}" by auto
  then show ?thesis
    by (auto simp: digit_chr_def is_digit_def digit_val_def py_isspace_def)
qed

lemma digits_all: "\<forall>c \<in> set (digits n). \<exists>d < 10. c = digit_chr d"
proof (induction n rule: digits.induct)
  case (1 n)
  show ?case
  proof (cases "n < 10")
    case True
    then show ?thesis by (subst digits.simps) auto
  next
    case False
    have "\<exists>d<10. digit_chr (n mod 10) = digit_chr d"
      by (rule exI [of _ "n mod 10"]) simp
    with False 1 show ?thesis
      by (subst digits.simps) auto
  qed
qed

lemma digits_nonempty: "digits n \<noteq> []"
  by (subst digits.simps) simp

lemma scan_digits_all:
  "\<forall>c \<in> set cs. is_digit c \<Longrightarrow> scan_digits acc cs = Some (fold (\<lambda>c a. 10 * a + digit_val c) cs acc)"
  by (induction acc cs rule: scan_digits.induct) auto

lemma fold_digits: "fold (\<lambda>c a. 10 * a + digit_val c) (digits n) 0 = n"
proof (induction n rule: digits.induct)
  case (1 n)
  show ?case
  proof (cases "n < 10")
    case True
    then show ?thesis by (subst digits.simps) (simp add: digit_chr_props)
  next
    case False
    have "n mod 10 < 10" by simp
    then have "digit_val (digit_chr (n mod 10)) = n mod 10" by (simp add: digit_chr_props)
    with False 1 show ?thesis
      by (subst digits.simps) simp
  qed
qed

lemma filter_digits: "filter is_digit (digits n) = digits n"
  using digits_all [of n] digit_chr_props by (intro filter_True) metis

lemma int_body_digits:
  "int_body (digits n) = (if int_max_str_digits < length (digits n) then None else Some n)"
proof -
  obtain c cs where cs: "digits n = c # cs"
    using digits_nonempty [of n] by (cases "digits n") auto
  have dig: "\<forall>x \<in> set (c # cs). is_digit x"
    using digits_all [of n] digit_chr_props unfolding cs by metis
  have "fold (\<lambda>c a. 10 * a + digit_val c) (c # cs) 0 = n"
    using fold_digits [of n] by (simp add: cs)
  with dig have "(case digits n of [] \<Rightarrow> None
      | c # cs \<Rightarrow> if is_digit c then scan_digits (digit_val c) cs else None) = Some n"
    by (simp add: cs scan_digits_all)
  then show ?thesis
    unfolding int_body_def filter_digits by simp
qed

lemma length_digits_le: "n < 10 ^ k \<Longrightarrow> 0 < k \<Longrightarrow> length (digits n) \<le> k"
proof (induction k arbitrary: n)
  case 0
  then show ?case by simp
next
  case (Suc k)
  show ?case
  proof (cases "n < 10")
    case True
    then show ?thesis by (subst digits.simps) simp
  next
    case False
    with Suc.prems have k: "0 < k" by (cases k) auto
    from Suc.prems have "n div 10 < 10 ^ k" by (simp add: less_mult_imp_div_less mult.commute)
    then have "length (digits (n div 10)) \<le> k" using k by (rule Suc.IH)
    with False show ?thesis by (subst digits.simps) simp
  qed
qed

lemma length_digits_power: "length (digits (10 ^ k)) = Suc k"
proof (induction k)
  case 0
  show ?case by (subst digits.simps) simp
next
  case (Suc k)
  have a: "\<not> (10::nat) ^ Suc k < 10" by (simp add: not_less)
  have b: "(10::nat) ^ Suc k div 10 = 10 ^ k" by simp
  show ?case
    by (subst digits.simps) (simp only: a b if_False length_append Suc.IH, simp)
qed

lemma digits_chars: "c \<in> set (digits n) \<Longrightarrow> is_digit c \<and> \<not> py_isspace c \<and> c \<noteq> CHR ''/'' \<and> c \<noteq> CHR ''-'' \<and> c \<noteq> CHR ''+''"
  using digits_all [of n] digit_chr_props by metis

lemma strip_id: "\<forall>c \<in> set s. \<not> py_isspace c \<Longrightarrow> strip s = s"
proof -
  assume a: "\<forall>c \<in> set s. \<not> py_isspace c"
  have 1: "dropWhile py_isspace s = s"
    using a by (cases s) auto
  have 2: "dropWhile py_isspace (rev s) = rev s"
    using a by (cases "rev s") (auto simp: rev_is_Nil_conv dest: arg_cong [where f = set])
  show ?thesis by (simp add: strip_def 1 2)
qed

lemma py_isspace_minus: "\<not> py_isspace CHR ''-''"
  by (simp add: py_isspace_def)

lemma strip_minus_digits: "strip (CHR ''-'' # digits n) = CHR ''-'' # digits n"
proof -
  have "\<forall>c \<in> set (CHR ''-'' # digits n). \<not> py_isspace c"
    using digits_chars py_isspace_minus by auto
  then show ?thesis by (rule strip_id)
qed

lemma py_int_str_int:
  "py_int (str_int i) = (if int_max_str_digits < length (digits (nat \<bar>i\<bar>)) then None else Some i)"
proof (cases "i < 0")
  case True
  then have a: "nat \<bar>i\<bar> = nat (- i)" by simp
  from True show ?thesis
    unfolding a by (simp add: py_int_def str_int_def strip_minus_digits int_body_digits)
next
  case False
  then have a: "nat \<bar>i\<bar> = nat i" by simp
  obtain c cs where cs: "digits (nat i) = c # cs"
    using digits_nonempty [of "nat i"] by (cases "digits (nat i)") auto
  have c: "c \<noteq> CHR ''-'' \<and> c \<noteq> CHR ''+''"
    using digits_chars [of c "nat i"] by (simp add: cs)
  have "strip (digits (nat i)) = digits (nat i)"
    using digits_chars by (intro strip_id) blast
  with False c show ?thesis
    using int_body_digits [of "nat i"]
    unfolding a by (simp add: py_int_def str_int_def cs)
qed

lemma py_int_str_int_bounded:
  assumes "0 < k" and "k \<le> int_max_str_digits" and "- (10 ^ k) < i" and "i < 10 ^ k"
  shows "py_int (str_int i) = Some i"
proof -
  from assms(3,4) have "\<bar>i\<bar> < 10 ^ k" by (simp add: abs_less_iff)
  then have "nat \<bar>i\<bar> < 10 ^ k" by (simp add: nat_less_iff)
  then have "length (digits (nat \<bar>i\<bar>)) \<le> k" using assms(1) by (rule length_digits_le)
  with assms(2) show ?thesis
    unfolding py_int_str_int by simp
qed

lemma py_int_str_int_limit:
  assumes "int_max_str_digits \<le> k"
  shows "py_int (str_int (- (10 ^ k))) = None"
proof -
  have neg: "- ((10::int) ^ k) < 0" by simp
  have n: "nat \<bar>- ((10::int) ^ k)\<bar> = 10 ^ k"
    by (simp add: nat_power_eq)
  show ?thesis
    unfolding py_int_str_int n length_digits_power using assms by simp
qed

lemma split_on_nonempty: "split_on sep s \<noteq> []"
  by (induction s) (auto split: list.splits)

lemma split_on_no_sep: "sep \<notin> set s \<Longrightarrow> split_on sep s = [s]"
  by (induction s) auto

lemma split_on_first: "sep \<notin> set xs \<Longrightarrow> split_on sep (xs @ sep # ys) = xs # split_on sep ys"
  by (induction xs) auto

lemma str_int_no_slash: "CHR ''/'' \<notin> set (str_int i)"
  using digits_chars by (auto simp: str_int_def)

lemma TIME_PERIODS_MAP_dom: "(TIME_PERIODS_MAP p \<noteq> None) = (p \<in> {''s'', ''m'', ''h'', ''d''})"
  by (simp add: TIME_PERIODS_MAP_def)

lemma validate_try_ok:
  "(\<exists>v. validate_try r = Inr v) =
   (\<exists>num period. split_on CHR ''/'' r = [num, period] \<and> py_int num \<noteq> None
      \<and> period \<in> {''s'', ''m'', ''h'', ''d''})"
  unfolding validate_try_def TIME_PERIODS_MAP_dom [symmetric]
  by (auto split: list.splits option.splits)

lemma validate_Some:
  "validate_client_throttle_rate (Some r) =
     (case validate_try r of Inr v \<Rightarrow> Inr ()
      | Inl (KeyError p) \<Rightarrow> Inl (DjValidationError (''invalid period '' @ [CHR 0x27] @ p @ [CHR 0x27] @ ''.''))
      | Inl e \<Rightarrow> Inl (DjValidationErrorFrom e))"
  by (simp add: validate_client_throttle_rate_def)

lemma validate_ok_iff: "(validate_client_throttle_rate (Some r) = Inr ()) = (\<exists>v. validate_try r = Inr v)"
  by (auto simp: validate_Some split: sum.splits error.splits)

lemma validate_error_kind:
  "validate_client_throttle_rate rate = Inr () \<or> is_validation_error (validate_client_throttle_rate rate)"
  by (cases rate) (auto simp: validate_client_throttle_rate_def split: sum.splits error.splits)

lemma validate_try_count:
  assumes "CHR ''/'' \<notin> set num" and "p \<in> {CHR ''s'', CHR ''m'', CHR ''h'', CHR ''d''}"
  shows "\<exists>d. validate_try (num @ ''/'' @ [p])
           = (case py_int num of None \<Rightarrow> Inl ValueError | Some k \<Rightarrow> Inr (k, d))"
proof -
  have sp: "split_on CHR ''/'' (num @ ''/'' @ [p]) = [num, [p]]"
    using assms split_on_first [of "CHR ''/''" num "[p]"]
    by (auto simp: split_on_no_sep)
  obtain d where d: "TIME_PERIODS_MAP [p] = Some d"
    using assms(2) by (auto simp: TIME_PERIODS_MAP_def)
  have "validate_try (num @ ''/'' @ [p])
           = (case py_int num of None \<Rightarrow> Inl ValueError | Some k \<Rightarrow> Inr (k, d))"
    unfolding validate_try_def sp by (simp add: d split: option.splits)
  then show ?thesis ..
qed

section \<open>Facts about the token string\<close>

lemma hex_chr_in: "d < 16 \<Longrightarrow> hex_chr d \<in> set ''0123456789abcdef''"
proof -
  assume "d < 16"
  then have "d = 0 \<or> d = 1 \<or> d = 2 \<or> d = 3 \<or> d = 4 \<or> d = 5 \<or> d = 6 \<or> d = 7 \<or> d = 8
      \<or> d = 9 \<or> d = 10 \<or> d = 11 \<or> d = 12 \<or> d = 13 \<or> d = 14 \<or> d = 15" by arith
  then show ?thesis
    unfolding hex_chr_def by (elim disjE) simp_all
qed

lemma length_hexlify: "length (hexlify bs) = 2 * length bs"
  by (induction bs) (simp_all add: hexlify_def)

lemma byte_halves: "unat (b :: 8 word) div 16 < 16 \<and> unat b mod 16 < 16"
proof -
  have "unat b < 2 ^ LENGTH(8)" by (rule unsigned_less)
  then show ?thesis by simp
qed

lemma set_hexlify: "c \<in> set (hexlify bs) \<Longrightarrow> c \<in> set ''0123456789abcdef''"
proof (induction bs)
  case Nil
  then show ?case by (simp add: hexlify_def)
next
  case (Cons b bs)
  from Cons.prems have "c = hex_chr (unat b div 16) \<or> c = hex_chr (unat b mod 16) \<or> c \<in> set (hexlify bs)"
    by (auto simp: hexlify_def)
  then show ?case
    using Cons.IH hex_chr_in byte_halves [of b] by metis
qed

lemma bit_length_eq: "2 ^ k \<le> n \<Longrightarrow> n < 2 ^ Suc k \<Longrightarrow> bit_length n = Suc k"
proof (induction k arbitrary: n)
  case 0
  then have "n = 1" by simp
  then show ?case by (simp add: bit_length.simps)
next
  case (Suc k)
  from Suc.prems have "2 ^ k \<le> n div 2" "n div 2 < 2 ^ Suc k" by auto
  then have "bit_length (n div 2) = Suc k" by (rule Suc.IH)
  moreover have "n \<noteq> 0" using Suc.prems by auto
  ultimately show ?case by (subst bit_length.simps) simp
qed

lemma int_truediv_2_exact:
  assumes "0 < n" and "float_round (nat n) = nat n" and "n < 2 ^ 1025"
  shows "int_truediv_2 n = Inr (n div 2)"
proof -
  have a: "nat \<bar>n\<bar> = nat n" using assms(1) by simp
  have b: "\<not> (2 ^ 1025 \<le> nat n)"
  proof
    assume "(2::nat) ^ 1025 \<le> nat n"
    then have "int (2 ^ 1025) \<le> int (nat n)" by (simp only: of_nat_le_iff)
    with assms(1,3) show False by simp
  qed
  have c: "sgn n * int (nat n div 2) = n div 2"
    using assms(1) by (simp add: zdiv_int)
  show ?thesis
    unfolding int_truediv_2_def a assms(2) Let_def using b c by simp
qed

lemma float_round_small: "n < 2 ^ 53 \<Longrightarrow> float_round n = n"
  by (simp add: float_round_def)

lemma float_round_power: "53 \<le> k \<Longrightarrow> float_round (2 ^ k) = 2 ^ k"
proof -
  assume k: "53 \<le> k"
  have bl: "bit_length (2 ^ k) = Suc k"
    by (rule bit_length_eq) simp_all
  have "(2::nat) ^ 53 \<le> 2 ^ k"
    using k by (intro power_increasing) simp_all
  then have nlt: "\<not> (2::nat) ^ k < 2 ^ 53"
    by (simp only: not_less)
  have sh: "Suc k - 53 = k - 52" using k by simp
  have q: "(2::nat) ^ k div 2 ^ (k - 52) = 2 ^ 52"
    using k by (simp add: power_diff [symmetric])
  have r: "(2::nat) ^ k mod 2 ^ (k - 52) = 0"
    using k by (simp add: le_imp_power_dvd)
  have m: "(2::nat) ^ 52 * 2 ^ (k - 52) = 2 ^ k"
    using k by (simp only: power_add [symmetric]) simp
  have e: "even ((2::nat) ^ 52)" by simp
  show ?thesis
    unfolding float_round_def bl Let_def sh q r
    using nlt m by simp
qed

lemma ssize_below_overflow: "n \<le> PY_SSIZE_T_MAX - 33 \<Longrightarrow> n < 2 ^ 1025"
proof -
  assume "n \<le> PY_SSIZE_T_MAX - 33"
  then have "n < 2 ^ 63" by (simp add: PY_SSIZE_T_MAX_def)
  moreover have "(2::int) ^ 63 \<le> 2 ^ 1025" by (rule power_increasing) simp_all
  ultimately show ?thesis by (rule less_le_trans)
qed

lemma create_token_string_exact:
  assumes "0 < n" and "even n" and "float_round (nat n) = nat n"
    and "nat n \<le> memory sys" and "n \<le> PY_SSIZE_T_MAX - 33"
  shows "create_token_string n sys = Inr (hexlify (map (entropy sys) [0..<nat (n div 2)]))"
proof -
  have h: "int_truediv_2 n = Inr (n div 2)"
    using assms(1,3) ssize_below_overflow [OF assms(5)] by (rule int_truediv_2_exact)
  have half: "0 \<le> n div 2" "n div 2 \<le> n" "2 * nat (n div 2) = nat n"
    using assms(1,2) by (auto elim: evenE)
  have u: "urandom sys (n div 2) = Inr (map (entropy sys) [0..<nat (n div 2)])"
    using half assms(4,5) by (simp add: urandom_def alloc_bytes_def PY_SSIZE_T_MAX_def)
  have len: "length (hexlify (map (entropy sys) [0..<nat (n div 2)])) = nat n"
    by (simp add: length_hexlify half)
  have b: "binascii_hexlify sys (map (entropy sys) [0..<nat (n div 2)])
      = Inr (hexlify (map (entropy sys) [0..<nat (n div 2)]))"
    using half assms(1,4,5) by (simp add: binascii_hexlify_def alloc_bytes_def PY_SSIZE_T_MAX_def)
  have d: "decode sys (hexlify (map (entropy sys) [0..<nat (n div 2)]))
      = Inr (hexlify (map (entropy sys) [0..<nat (n div 2)]))"
    using assms(4) by (simp add: decode_def len)
  show ?thesis
    by (simp add: create_token_string_def h u b d)
qed

section \<open>Facts about the throttle\<close>

lemma throttle_rate_first_read:
  "throttle_rate_cache c = None \<Longrightarrow> throttle_rate c = (throttle_rate_fget c, c\<lparr>throttle_rate_cache := Some (throttle_rate_fget c)\<rparr>)"
  by (simp add: throttle_rate_def py_cached_property_def Let_def)

lemma throttle_rate_later_read:
  "throttle_rate_cache c = Some v \<Longrightarrow> throttle_rate c = (v, c)"
  by (simp add: throttle_rate_def py_cached_property_def)

lemma throttle_rate_is_cached:
  "fst (throttle_rate ((snd (throttle_rate c))\<lparr>settings := s\<rparr>)) = fst (throttle_rate c)"
  by (cases "throttle_rate_cache c") (simp_all add: throttle_rate_def py_cached_property_def Let_def)

lemma allow_request_rate_auth_without_client:
  "is_authenticated (request_user req) \<Longrightarrow> request_auth req = Some a \<Longrightarrow> auth_client a = Inl e
     \<Longrightarrow> allow_request_rate get_rate req = Inl e"
  by (simp add: allow_request_rate_def)

lemma get_cache_key_ident:
  "(request_user req = User p \<and> request_auth req = Some (AuthWithClient c)
      \<longrightarrow> get_cache_key get_ident req =
          Inr (''throttle_'' @ scope @ ''_'' @ ''user-'' @ str_int p @ ''.client-''
               @ str_int (client_pk c)))
   \<and> (request_user req = User p \<and> request_auth req = None
      \<longrightarrow> get_cache_key get_ident req = Inr (''throttle_'' @ scope @ ''_'' @ str_int p))
   \<and> (request_user req = AnonymousUser
      \<longrightarrow> get_cache_key get_ident req = Inr (''throttle_'' @ scope @ ''_'' @ get_ident))
   \<and> scope = ''user_per_client''"
  by (simp add: get_cache_key_def get_user_client_ident_def cache_format_def scope_def)

section \<open>Facts about the token operations\<close>

lemma create_token_string_example: "create_token_string 4 example_system = Inr ''0aff''"
  by (simp add: create_token_string_def int_truediv_2_def float_round_def urandom_def
      alloc_bytes_def binascii_hexlify_def decode_def PY_SSIZE_T_MAX_def
      hexlify_def hex_chr_def upt_rec example_system_def)

lemma renew_token_Inr:
  "(renew_token now w self renewed_by = Inr (e, self', w')) =
   (\<exists>uc. userclient self = Some uc
      \<and> DATETIME_MIN \<le> now + token_ttl (userclient_client uc)
      \<and> now + token_ttl (userclient_client uc) \<le> DATETIME_MAX
      \<and> authtoken_pk self \<in> set (map authtoken_pk (authtoken_rows w))
      \<and> e = now + token_ttl (userclient_client uc)
      \<and> self' = self\<lparr>expiry := e\<rparr>
      \<and> w' = w\<lparr>authtoken_rows :=
                  map (\<lambda>r. if authtoken_pk r = authtoken_pk self then r\<lparr>expiry := e\<rparr> else r)
                    (authtoken_rows w),
                signals_sent := signals_sent w
                  @ [\<lparr>sender = renewed_by, signal_token = self\<lparr>expiry := e\<rparr>, new_expiry = e\<rparr>]\<rparr>)"
  by (cases "userclient self")
     (auto simp: renew_token_def datetime_add_def save_expiry_def Let_def)

lemma create_Inr:
  "(create n sys now now_saved w uc delta_ttl = Inr (inst, w')) =
   (\<exists>tok. create_token_string n sys = Inr tok
      \<and> DATETIME_MIN \<le> now + (case delta_ttl of Some d \<Rightarrow> d | None \<Rightarrow> token_ttl (userclient_client uc))
      \<and> now + (case delta_ttl of Some d \<Rightarrow> d | None \<Rightarrow> token_ttl (userclient_client uc)) \<le> DATETIME_MAX
      \<and> tok \<notin> set (map token (authtoken_rows w))
      \<and> Some (userclient_pk uc) \<notin> set (map owner (authtoken_rows w))
      \<and> userclient_pk uc \<in> set (map userclient_pk (userclient_rows w))
      \<and> inst = \<lparr>authtoken_pk = authtoken_sequence w + 1, token = tok, created = now_saved,
                 expiry = now + (case delta_ttl of Some d \<Rightarrow> d | None \<Rightarrow> token_ttl (userclient_client uc)),
                 userclient = Some uc\<rparr>
      \<and> w' = w\<lparr>authtoken_rows := authtoken_rows w @ [inst],
                authtoken_sequence := authtoken_sequence w + 1\<rparr>)"
  by (cases "create_token_string n sys"; cases delta_ttl)
     (auto simp: create_def datetime_add_def insert_authtoken_def Let_def)

lemma owner_expiry_update: "owner (r\<lparr>expiry := e\<rparr>) = owner r"
  by (simp add: owner_def)

lemma map_owner_renew:
  "map (owner \<circ> (\<lambda>r. if authtoken_pk r = p then r\<lparr>expiry := e\<rparr> else r)) rows = map owner rows"
  by (induction rows) (simp_all add: owner_expiry_update)

lemma filter_owner_le_1:
  "distinct (map f xs) \<Longrightarrow> length (filter (\<lambda>x. f x = y) xs) \<le> 1"
proof (induction xs)
  case Nil
  then show ?case by simp
next
  case (Cons x xs)
  show ?case
  proof (cases "f x = y")
    case True
    with Cons.prems have "\<forall>z \<in> set xs. f z \<noteq> y" by (fastforce simp: image_iff)
    then have "filter (\<lambda>x. f x = y) xs = []" by (simp add: filter_empty_conv)
    with True show ?thesis by simp
  next
    case False
    with Cons show ?thesis by simp
  qed
qed

lemma link_invariant_create:
  assumes "link_invariant w" and "create n sys now now_saved w uc delta_ttl = Inr (inst, w')"
  shows "link_invariant w'"
proof -
  from assms(2) obtain tok where
    fresh: "Some (userclient_pk uc) \<notin> set (map owner (authtoken_rows w))" and
    fk: "userclient_pk uc \<in> set (map userclient_pk (userclient_rows w))" and
    inst: "userclient inst = Some uc" and
    w': "w' = w\<lparr>authtoken_rows := authtoken_rows w @ [inst],
                authtoken_sequence := authtoken_sequence w + 1\<rparr>"
    unfolding create_Inr by auto
  have o: "owner inst = Some (userclient_pk uc)"
    by (simp add: owner_def inst)
  from fk obtain l where l: "l \<in> set (userclient_rows w)" "userclient_pk l = userclient_pk uc"
    by auto
  show ?thesis
    using assms(1) fresh l o unfolding link_invariant_def w'
    by (auto intro!: bexI [where x = l])
qed

lemma link_invariant_renew:
  assumes "link_invariant w" and "renew_token now w self renewed_by = Inr (e, self', w')"
  shows "link_invariant w'"
proof -
  from assms(2) have
    w': "w' = w\<lparr>authtoken_rows :=
                  map (\<lambda>r. if authtoken_pk r = authtoken_pk self then r\<lparr>expiry := e\<rparr> else r)
                    (authtoken_rows w),
                signals_sent := signals_sent w
                  @ [\<lparr>sender = renewed_by, signal_token = self\<lparr>expiry := e\<rparr>, new_expiry = e\<rparr>]\<rparr>"
    unfolding renew_token_Inr by auto
  show ?thesis
    using assms(1) unfolding link_invariant_def w'
    by (auto simp: map_owner_renew owner_expiry_update)
qed

lemma link_invariant_revoke:
  assumes "link_invariant w"
  shows "link_invariant (revoke w tok)"
  using assms unfolding link_invariant_def revoke_def
  by (auto simp: distinct_map_filter)

lemma link_invariant_delete_userclient:
  assumes "link_invariant w"
  shows "link_invariant (delete_userclient w uc)"
  using assms unfolding link_invariant_def delete_userclient_def
  by (auto simp: distinct_map_filter) force

lemma unique_link:
  assumes "link_invariant w" and "t \<in> set (authtoken_rows w)"
  shows "\<exists>!l. l \<in> set (userclient_rows w) \<and> owner t = Some (userclient_pk l)"
proof -
  from assms obtain l where l: "l \<in> set (userclient_rows w)" "owner t = Some (userclient_pk l)"
    unfolding link_invariant_def by blast
  have d: "distinct (map userclient_pk (userclient_rows w))"
    using assms(1) unfolding link_invariant_def by simp
  have "l' = l" if "l' \<in> set (userclient_rows w)" "owner t = Some (userclient_pk l')" for l'
    using that l d by (auto simp: distinct_map dest: inj_onD)
  with l show ?thesis by blast
qed

lemma create_key_is_new:
  assumes "keys_from_sequence w" and "create n sys now now_saved w uc delta_ttl = Inr (inst, w')"
  shows "authtoken_pk inst \<notin> set (map authtoken_pk (authtoken_rows w))
     \<and> authtoken_sequence w < authtoken_pk inst \<and> keys_from_sequence w'"
proof -
  from assms(2) have
    pk: "authtoken_pk inst = authtoken_sequence w + 1" and
    w': "w' = w\<lparr>authtoken_rows := authtoken_rows w @ [inst],
                authtoken_sequence := authtoken_sequence w + 1\<rparr>"
    unfolding create_Inr by auto
  have old: "\<forall>t \<in> set (authtoken_rows w). authtoken_pk t \<le> authtoken_sequence w"
    using assms(1) by (simp add: keys_from_sequence_def)
  then have 1: "authtoken_pk inst \<notin> set (map authtoken_pk (authtoken_rows w))"
    unfolding pk by fastforce
  have 2: "keys_from_sequence w'"
    using old unfolding keys_from_sequence_def w' by (auto simp: pk)
  from 1 2 pk show ?thesis by simp
qed

lemma deletions_keep_sequence:
  "authtoken_sequence (revoke w tok) = authtoken_sequence w
   \<and> authtoken_sequence (delete_userclient w uc) = authtoken_sequence w
   \<and> (keys_from_sequence w \<longrightarrow> keys_from_sequence (revoke w tok)
        \<and> keys_from_sequence (delete_userclient w uc))"
  by (auto simp: revoke_def delete_userclient_def keys_from_sequence_def)

lemma renew_example_plain:
  "renew_token 2000000 (example_world\<lparr>authtoken_rows := [example_token_plain], authtoken_sequence := 1\<rparr>)
     example_token_plain ''view''
   = Inr (86402000000, example_token_plain\<lparr>expiry := 86402000000\<rparr>,
          example_world\<lparr>authtoken_rows := [example_token_plain\<lparr>expiry := 86402000000\<rparr>], authtoken_sequence := 1,
            signals_sent := [\<lparr>sender = ''view'',
              signal_token = example_token_plain\<lparr>expiry := 86402000000\<rparr>,
              new_expiry = 86402000000\<rparr>]\<rparr>)"
  by (simp add: renew_token_def datetime_add_def DATETIME_MIN_def DATETIME_MAX_def
      save_expiry_def Let_def example_world_def example_token_plain_def example_link_def
      example_client_def)

lemma renew_example_plain_again:
  "renew_token 3000000
     (example_world\<lparr>authtoken_rows := [example_token_plain\<lparr>expiry := 86402000000\<rparr>], authtoken_sequence := 1,
            signals_sent := [\<lparr>sender = ''view'',
              signal_token = example_token_plain\<lparr>expiry := 86402000000\<rparr>,
              new_expiry = 86402000000\<rparr>]\<rparr>)
     (example_token_plain\<lparr>expiry := 86402000000\<rparr>) ''admin''
   = Inr (86403000000, example_token_plain\<lparr>expiry := 86403000000\<rparr>,
          example_world\<lparr>authtoken_rows := [example_token_plain\<lparr>expiry := 86403000000\<rparr>], authtoken_sequence := 1,
            signals_sent := [\<lparr>sender = ''view'',
              signal_token = example_token_plain\<lparr>expiry := 86402000000\<rparr>,
              new_expiry = 86402000000\<rparr>,
              \<lparr>sender = ''admin'',
              signal_token = example_token_plain\<lparr>expiry := 86403000000\<rparr>,
              new_expiry = 86403000000\<rparr>]\<rparr>)"
  by (simp add: renew_token_def datetime_add_def DATETIME_MIN_def DATETIME_MAX_def
      save_expiry_def Let_def example_world_def example_token_plain_def example_link_def
      example_client_def)

section \<open>The throttle\<close>

text \<open>
  C1 (amended). The rate that \<open>allow_request\<close> assigns is the client's \<open>throttle_rate\<close> when
  the request's user is authenticated, the request's \<open>_auth\<close> is an object with a client,
  and that rate is neither null nor the empty string; it is the outcome of \<open>get_rate()\<close>,
  the default configured for the scope, when the rate is null or empty, when the user is
  not authenticated, and when the request has no attribute \<open>_auth\<close>. On its first read
  the client's \<open>throttle_rate\<close> is the rate of its settings row, and null without one.
\<close>

theorem allow_request_rate_resolution:
  "(is_authenticated (request_user req) \<and> request_auth req = Some (AuthWithClient c)
      \<and> fst (throttle_rate c) = Some r \<and> r \<noteq> []
      \<longrightarrow> allow_request_rate get_rate req = Inr (Some r))
   \<and> (is_authenticated (request_user req) \<and> request_auth req = Some (AuthWithClient c)
      \<and> (fst (throttle_rate c) = None \<or> fst (throttle_rate c) = Some [])
      \<longrightarrow> allow_request_rate get_rate req = get_rate)
   \<and> (\<not> is_authenticated (request_user req) \<or> request_auth req = None
      \<longrightarrow> allow_request_rate get_rate req = get_rate)
   \<and> (throttle_rate_cache c = None
      \<longrightarrow> fst (throttle_rate c) = (case settings c of Some s \<Rightarrow> cs_throttle_rate s | None \<Rightarrow> None))"
  by (auto simp: allow_request_rate_def Let_def throttle_rate_first_read throttle_rate_fget_def
      split: option.splits)

theorem allow_request_rate_resolution_witness:
  "allow_request_rate (Inr (Some ''10/m''))
     \<lparr>request_user = User 7,
      request_auth = Some (AuthWithClient \<lparr>client_pk = 3, name = ''web'', token_ttl = 86400000000,
        settings = Some \<lparr>cs_throttle_rate = Some ''5/m''\<rparr>, throttle_rate_cache = None\<rparr>)\<rparr>
     = Inr (Some ''5/m'')
   \<and> allow_request_rate (Inr (Some ''10/m''))
     \<lparr>request_user = User 7,
      request_auth = Some (AuthWithClient \<lparr>client_pk = 3, name = ''web'', token_ttl = 86400000000,
        settings = None, throttle_rate_cache = None\<rparr>)\<rparr> = Inr (Some ''10/m'')
   \<and> allow_request_rate (Inr (Some ''10/m''))
     \<lparr>request_user = AnonymousUser, request_auth = Some AuthNone\<rparr> = Inr (Some ''10/m'')
   \<and> allow_request_rate (Inr (Some ''10/m''))
     \<lparr>request_user = User 7, request_auth = None\<rparr> = Inr (Some ''10/m'')"
proof -
  let ?d = "Inr (Some ''10/m'') :: error + string option"
  let ?c1 = "\<lparr>client_pk = 3, name = ''web'', token_ttl = 86400000000,
        settings = Some \<lparr>cs_throttle_rate = Some ''5/m''\<rparr>, throttle_rate_cache = None\<rparr>"
  let ?c2 = "\<lparr>client_pk = 3, name = ''web'', token_ttl = 86400000000, settings = None,
        throttle_rate_cache = None\<rparr>"
  have r1: "fst (throttle_rate ?c1) = Some ''5/m''"
    using allow_request_rate_resolution [of _ ?c1] by simp
  have r2: "fst (throttle_rate ?c2) = None"
    using allow_request_rate_resolution [of _ ?c2] by simp
  have 1: "allow_request_rate ?d \<lparr>request_user = User 7, request_auth = Some (AuthWithClient ?c1)\<rparr>
      = Inr (Some ''5/m'')"
    using allow_request_rate_resolution
      [of "\<lparr>request_user = User 7, request_auth = Some (AuthWithClient ?c1)\<rparr>" ?c1 "''5/m''" ?d] r1
    by simp
  have 2: "allow_request_rate ?d \<lparr>request_user = User 7, request_auth = Some (AuthWithClient ?c2)\<rparr>
      = ?d"
    using allow_request_rate_resolution
      [of "\<lparr>request_user = User 7, request_auth = Some (AuthWithClient ?c2)\<rparr>" ?c2 "''5/m''" ?d] r2
    by simp
  have 3: "allow_request_rate ?d \<lparr>request_user = AnonymousUser, request_auth = Some AuthNone\<rparr> = ?d"
    using allow_request_rate_resolution
      [of "\<lparr>request_user = AnonymousUser, request_auth = Some AuthNone\<rparr>" ?c2 "''5/m''" ?d]
    by simp
  have 4: "allow_request_rate ?d \<lparr>request_user = User 7, request_auth = None\<rparr> = ?d"
    using allow_request_rate_resolution
      [of "\<lparr>request_user = User 7, request_auth = None\<rparr>" ?c2 "''5/m''" ?d]
    by simp
  from 1 2 3 4 show ?thesis by simp
qed

text \<open>
  The claim as first stated takes every non-null rate of the client: a client whose
  settings hold the empty string (the field allows blank values) gets the default.
\<close>

theorem allow_request_rate_empty_counterexample:
  "is_authenticated (request_user
     \<lparr>request_user = User 7,
      request_auth = Some (AuthWithClient \<lparr>client_pk = 3, name = ''web'', token_ttl = 86400000000,
        settings = Some \<lparr>cs_throttle_rate = Some []\<rparr>, throttle_rate_cache = None\<rparr>)\<rparr>)
   \<and> fst (throttle_rate \<lparr>client_pk = 3, name = ''web'', token_ttl = 86400000000,
        settings = Some \<lparr>cs_throttle_rate = Some []\<rparr>, throttle_rate_cache = None\<rparr>) = Some []
   \<and> allow_request_rate (Inr (Some ''10/m''))
     \<lparr>request_user = User 7,
      request_auth = Some (AuthWithClient \<lparr>client_pk = 3, name = ''web'', token_ttl = 86400000000,
        settings = Some \<lparr>cs_throttle_rate = Some []\<rparr>, throttle_rate_cache = None\<rparr>)\<rparr>
     = Inr (Some ''10/m'')
   \<and> allow_request_rate (Inr (Some ''10/m''))
     \<lparr>request_user = User 7,
      request_auth = Some (AuthWithClient \<lparr>client_pk = 3, name = ''web'', token_ttl = 86400000000,
        settings = Some \<lparr>cs_throttle_rate = Some []\<rparr>, throttle_rate_cache = None\<rparr>)\<rparr>
     \<noteq> Inr (Some [])"
  by (simp add: allow_request_rate_def throttle_rate_first_read throttle_rate_fget_def)

text \<open>
  C8. The claim gives an authenticated user whose request has no client context the key
  \<open>throttle_user_per_client_<pk>\<close>, and \<open>get_cache_key\<close> has a branch that builds it. The
  branch is guarded by \<open>hasattr(request, "_auth")\<close>, and rest_framework sets \<open>_auth\<close> to
  \<open>None\<close> for a user it authenticated by a scheme that returns no token: for such a
  request the code reads \<open>request._auth.client\<close> and raises AttributeError.
\<close>

theorem get_cache_key_auth_none_raises:
  "is_authenticated (request_user \<lparr>request_user = User 7, request_auth = Some AuthNone\<rparr>)
   \<and> get_cache_key ''127.0.0.1'' \<lparr>request_user = User 7, request_auth = Some AuthNone\<rparr>
       = Inl AttributeError
   \<and> get_cache_key ''127.0.0.1'' \<lparr>request_user = User 7, request_auth = Some AuthNone\<rparr>
       \<noteq> Inr ''throttle_user_per_client_7''"
  by (simp add: get_cache_key_def get_user_client_ident_def)

text \<open>
  C4. \<open>validate_client_throttle_rate\<close> passes \<open>None\<close>. For a string it raises exactly when
  the string does not split into two parts around \<open>/\<close>, or \<open>int\<close> does not parse the first
  part, or the second part is none of \<open>s\<close>, \<open>m\<close>, \<open>h\<close>, \<open>d\<close>; what it raises is a validation
  error.
\<close>

theorem validate_client_throttle_rate_raises_iff:
  "validate_client_throttle_rate None = Inr ()
   \<and> (validate_client_throttle_rate (Some r) \<noteq> Inr ()) =
       (length (split_on CHR ''/'' r) \<noteq> 2
        \<or> py_int (split_on CHR ''/'' r ! 0) = None
        \<or> split_on CHR ''/'' r ! 1 \<notin> {''s'', ''m'', ''h'', ''d''})
   \<and> (validate_client_throttle_rate (Some r) = Inr ()
        \<or> is_validation_error (validate_client_throttle_rate (Some r)))"
proof -
  have a: "validate_client_throttle_rate None = Inr ()"
    by (simp add: validate_client_throttle_rate_def)
  have "(\<exists>num period. split_on CHR ''/'' r = [num, period] \<and> py_int num \<noteq> None
      \<and> period \<in> {''s'', ''m'', ''h'', ''d''}) =
     (length (split_on CHR ''/'' r) = 2
        \<and> py_int (split_on CHR ''/'' r ! 0) \<noteq> None
        \<and> split_on CHR ''/'' r ! 1 \<in> {''s'', ''m'', ''h'', ''d''})"
  proof (cases "split_on CHR ''/'' r")
    case Nil
    then show ?thesis by simp
  next
    case (Cons x xs)
    then show ?thesis
      by (cases xs; cases "tl xs") auto
  qed
  then have b: "(validate_client_throttle_rate (Some r) \<noteq> Inr ()) =
       (length (split_on CHR ''/'' r) \<noteq> 2
        \<or> py_int (split_on CHR ''/'' r ! 0) = None
        \<or> split_on CHR ''/'' r ! 1 \<notin> {''s'', ''m'', ''h'', ''d''})"
    unfolding validate_ok_iff validate_try_ok by blast
  from a b validate_error_kind [of "Some r"] show ?thesis by blast
qed

theorem validate_client_throttle_rate_raises_iff_witness:
  "validate_client_throttle_rate (Some ''100/h'') = Inr ()
   \<and> validate_client_throttle_rate (Some ''10/min'') = Inl (DjValidationError ''invalid period 'min'.'')
   \<and> validate_client_throttle_rate (Some ''abc/h'') = Inl (DjValidationErrorFrom ValueError)
   \<and> validate_client_throttle_rate (Some ''1/2/s'') = Inl (DjValidationErrorFrom ValueError)
   \<and> split_on CHR ''/'' ''10/min'' ! 1 \<notin> {''s'', ''m'', ''h'', ''d''}
   \<and> validate_client_throttle_rate (Some ''10/min'') \<noteq> Inr ()"
  using validate_client_throttle_rate_raises_iff [of "''10/min''"]
  by (simp add: validate_client_throttle_rate_def validate_try_def py_int_def strip_def
      py_isspace_def int_body_def int_max_str_digits_def is_digit_def digit_val_def
      TIME_PERIODS_MAP_def)

text \<open>
  C10 (amended). For every integer \<open>n\<close> with \<open>- (10 ^ 4300) < n \<le> 0\<close>, the counts whose
  digits \<open>int\<close> accepts under the interpreter's default limit, and every period character
  among \<open>s\<close>, \<open>m\<close>, \<open>h\<close>, \<open>d\<close>, validating \<open><n>/<p>\<close> raises nothing, and the request count the
  validator parsed is that \<open>n\<close>.
\<close>

theorem validate_accepts_nonpositive_count:
  assumes "n \<le> 0" and "- (10 ^ 4300) < n"
    and "p \<in> {CHR ''s'', CHR ''m'', CHR ''h'', CHR ''d''}"
  shows "validate_client_throttle_rate (Some (str_int n @ ''/'' @ [p])) = Inr ()
         \<and> (\<exists>duration. validate_try (str_int n @ ''/'' @ [p]) = Inr (n, duration))"
proof -
  have "(0::int) < 10 ^ 4300" by (rule zero_less_power) simp
  with assms(1) have up: "n < 10 ^ 4300" by (rule le_less_trans)
  have lim: "4300 \<le> int_max_str_digits" by (simp add: int_max_str_digits_def)
  have p: "py_int (str_int n) = Some n"
    using _ lim assms(2) up by (rule py_int_str_int_bounded) simp
  obtain d where "validate_try (str_int n @ ''/'' @ [p])
      = (case py_int (str_int n) of None \<Rightarrow> Inl ValueError | Some k \<Rightarrow> Inr (k, d))"
    using validate_try_count [OF str_int_no_slash assms(3)] by blast
  then have t: "validate_try (str_int n @ ''/'' @ [p]) = Inr (n, d)"
    unfolding p by simp
  then show ?thesis
    unfolding validate_Some by simp
qed

theorem validate_accepts_nonpositive_count_witness:
  "(- 5 :: int) \<le> 0 \<and> - (10 ^ 4300) < (- 5 :: int)
   \<and> CHR ''h'' \<in> {CHR ''s'', CHR ''m'', CHR ''h'', CHR ''d''}
   \<and> str_int (- 5) @ ''/'' @ ''h'' = ''-5/h''
   \<and> validate_client_throttle_rate (Some ''-5/h'') = Inr ()
   \<and> validate_try ''-5/h'' = Inr (- 5, 3600)
   \<and> validate_try ''0/s'' = Inr (0, 1)"
proof -
  have "(10::int) ^ 1 \<le> 10 ^ 4300" by (rule power_increasing) simp_all
  moreover have "(5::int) < 10 ^ 1" by simp
  ultimately have "(5::int) < 10 ^ 4300" by (rule less_le_trans [rotated])
  then have b: "- (10 ^ 4300) < (- 5 :: int)" by (simp only: neg_less_iff_less)
  have a: "(- 5 :: int) \<le> 0" "CHR ''h'' \<in> {CHR ''s'', CHR ''m'', CHR ''h'', CHR ''d''}"
    by simp_all
  have s: "str_int (- 5) @ ''/'' @ ''h'' = ''-5/h''"
    by (simp add: str_int_def digits.simps digit_chr_def)
  from validate_accepts_nonpositive_count [OF a(1) b a(2)]
  have "validate_client_throttle_rate (Some (str_int (- 5) @ ''/'' @ ''h'')) = Inr ()" ..
  then have v: "validate_client_throttle_rate (Some ''-5/h'') = Inr ()"
    unfolding s .
  have t: "validate_try ''-5/h'' = Inr (- 5, 3600)" "validate_try ''0/s'' = Inr (0, 1)"
    by (simp_all add: validate_try_def py_int_def strip_def
      py_isspace_def int_body_def int_max_str_digits_def is_digit_def digit_val_def
      TIME_PERIODS_MAP_def)
  show ?thesis
    using a b s v t by (intro conjI)
qed

text \<open>
  The claim as first stated takes every \<open>n \<le> 0\<close>. The count \<open>- (10 ^ 4300)\<close> has 4301
  digits: \<open>int\<close> refuses it, and the validator turns that into a validation error.
\<close>

theorem validate_rejects_long_count_counterexample:
  "validate_client_throttle_rate (Some (str_int (- (10 ^ 4300)) @ ''/'' @ ''s''))
     = Inl (DjValidationErrorFrom ValueError)
   \<and> py_int (str_int (- (10 ^ 4300))) = None
   \<and> length (digits (10 ^ 4300)) = 4301"
proof -
  have lim: "int_max_str_digits \<le> 4300" by (simp add: int_max_str_digits_def)
  have p: "py_int (str_int (- (10 ^ 4300))) = None"
    using lim by (rule py_int_str_int_limit)
  have s: "CHR ''s'' \<in> {CHR ''s'', CHR ''m'', CHR ''h'', CHR ''d''}" by simp
  obtain d where "validate_try (str_int (- (10 ^ 4300)) @ ''/'' @ ''s'')
      = (case py_int (str_int (- (10 ^ 4300))) of None \<Rightarrow> Inl ValueError | Some k \<Rightarrow> Inr (k, d))"
    using validate_try_count [OF str_int_no_slash s] by blast
  then have t: "validate_try (str_int (- (10 ^ 4300)) @ ''/'' @ ''s'') = Inl ValueError"
    unfolding p by (simp only: option.case)
  have v: "validate_client_throttle_rate (Some (str_int (- (10 ^ 4300)) @ ''/'' @ ''s''))
     = Inl (DjValidationErrorFrom ValueError)"
    unfolding validate_Some t by (simp only: sum.case error.case)
  have l: "length (digits (10 ^ 4300)) = 4301"
    unfolding length_digits_power by (simp only: Suc_numeral) simp
  from v p l show ?thesis by (intro conjI)
qed

section \<open>The token string\<close>

text \<open>
  C7 (amended). For every even positive token character length that a double holds
  exactly (every length below \<open>2 ^ 53\<close> does) and that the interpreter can allocate (at
  most \<open>memory\<close> bytes, and at most \<open>PY_SSIZE_T_MAX - 33\<close>), the generator returns the hex
  encoding of the first \<open>length / 2\<close> bytes of the entropy source: a string of exactly
  \<open>length\<close> characters, all of them lowercase hexadecimal digits.
\<close>

theorem create_token_string_length:
  assumes "0 < n" and "even n" and "float_round (nat n) = nat n"
    and "nat n \<le> memory sys" and "n \<le> PY_SSIZE_T_MAX - 33"
  shows "create_token_string n sys = Inr (hexlify (map (entropy sys) [0..<nat (n div 2)]))
         \<and> int (length (hexlify (map (entropy sys) [0..<nat (n div 2)]))) = n
         \<and> (\<forall>c \<in> set (hexlify (map (entropy sys) [0..<nat (n div 2)])). c \<in> set ''0123456789abcdef'')
         \<and> length (map (entropy sys) [0..<nat (n div 2)]) = nat (n div 2)"
proof -
  have 1: "create_token_string n sys = Inr (hexlify (map (entropy sys) [0..<nat (n div 2)]))"
    using assms by (rule create_token_string_exact)
  have 2: "int (length (hexlify (map (entropy sys) [0..<nat (n div 2)]))) = n"
    using assms(1,2) by (auto simp: length_hexlify elim: evenE)
  show ?thesis
    using 1 2 set_hexlify by auto
qed

theorem create_token_string_length_witness:
  "(0::int) < 4 \<and> even (4::int) \<and> float_round (nat 4) = nat 4
   \<and> nat 4 \<le> memory example_system \<and> 4 \<le> PY_SSIZE_T_MAX - 33
   \<and> create_token_string 4 example_system = Inr ''0aff''
   \<and> int (length ''0aff'') = 4"
proof -
  have h: "(0::int) < 4" "even (4::int)" "float_round (nat 4) = nat 4"
    "nat 4 \<le> memory example_system" "4 \<le> PY_SSIZE_T_MAX - 33"
    by (simp_all add: float_round_def example_system_def PY_SSIZE_T_MAX_def)
  have m: "hexlify (map (entropy example_system) [0..<nat (4 div 2)]) = ''0aff''"
    by (simp add: hexlify_def hex_chr_def upt_rec example_system_def)
  from create_token_string_length [OF h] h
  show ?thesis unfolding m by simp
qed

text \<open>
  The claim as first stated covers every even positive length. From \<open>2 ^ 1025\<close> on the
  true division overflows, and for \<open>2 ^ 70\<close> the \<open>2 ^ 69\<close> bytes asked of \<open>os.urandom\<close> are
  more than a C \<open>ssize_t\<close> holds.
\<close>

theorem create_token_string_large_counterexample:
  "create_token_string (2 ^ 1025) example_system = Inl OverflowError
   \<and> create_token_string (2 ^ 70) example_system = Inl OverflowError
   \<and> even ((2::int) ^ 70) \<and> (0::int) < 2 ^ 70"
proof -
  have a: "nat \<bar>(2::int) ^ 1025\<bar> = 2 ^ 1025"
  proof -
    have "nat ((2::int) ^ 1025) = nat 2 ^ 1025" by (rule nat_power_eq) simp
    moreover have "\<bar>(2::int) ^ 1025\<bar> = 2 ^ 1025" by (rule abs_of_nonneg) simp
    moreover have "nat 2 = (2::nat)" by simp
    ultimately show ?thesis by (simp only:)
  qed
  have fr: "float_round (2 ^ 1025) = 2 ^ 1025"
    by (rule float_round_power) simp
  have 1: "create_token_string (2 ^ 1025) example_system = Inl OverflowError"
    unfolding create_token_string_def int_truediv_2_def a fr
    by (simp only: Let_def order_refl if_True sum.case)
  have b: "nat \<bar>(2::int) ^ 70\<bar> = 2 ^ 70" by simp
  have fr70: "float_round (2 ^ 70) = 2 ^ 70"
    by (rule float_round_power) simp
  have small: "\<not> (2::nat) ^ 1025 \<le> 2 ^ 70"
    by (simp only: not_le) (rule power_strict_increasing, simp_all)
  have h: "int_truediv_2 (2 ^ 70) = Inr (2 ^ 69)"
    unfolding int_truediv_2_def b fr70 Let_def using small by simp
  have u: "urandom example_system (2 ^ 69) = Inl OverflowError"
    by (simp add: urandom_def PY_SSIZE_T_MAX_def)
  have 2: "create_token_string (2 ^ 70) example_system = Inl OverflowError"
    by (simp only: create_token_string_def h u sum.case)
  from 1 2 show ?thesis by simp
qed

section \<open>Tokens: issue, renew, expiry\<close>

text \<open>
  C2. Whenever \<open>create\<close> returns a token for a link, the token's expiry is the clock
  reading plus the override when one is given and plus the client's \<open>token_ttl\<close>
  otherwise; \<open>created\<close> is the later reading taken when the row is saved, so
  \<open>expiry - created\<close> is the chosen TTL less the time between the two readings, within
  any \<open>eps\<close> that bounds that time. \<open>create\<close> returns a token exactly when the token string
  is generated and is new, the link is stored and owns no token yet, and the expiry is a
  valid datetime.
\<close>

theorem create_expiry:
  "(create n sys now now_saved w uc delta_ttl = Inr (inst, w') \<longrightarrow>
      expiry inst = now + (case delta_ttl of Some d \<Rightarrow> d | None \<Rightarrow> token_ttl (userclient_client uc))
      \<and> created inst = now_saved
      \<and> expiry inst - created inst
          = (case delta_ttl of Some d \<Rightarrow> d | None \<Rightarrow> token_ttl (userclient_client uc))
            - (now_saved - now)
      \<and> (now \<le> now_saved \<and> now_saved - now \<le> eps \<longrightarrow>
           \<bar>(expiry inst - created inst)
             - (case delta_ttl of Some d \<Rightarrow> d | None \<Rightarrow> token_ttl (userclient_client uc))\<bar> \<le> eps)
      \<and> userclient inst = Some uc
      \<and> Inr (token inst) = create_token_string n sys
      \<and> authtoken_rows w' = authtoken_rows w @ [inst])
   \<and> ((\<exists>i v. create n sys now now_saved w uc delta_ttl = Inr (i, v)) =
       (\<exists>tok. create_token_string n sys = Inr tok
          \<and> tok \<notin> set (map token (authtoken_rows w))
          \<and> Some (userclient_pk uc) \<notin> set (map owner (authtoken_rows w))
          \<and> userclient_pk uc \<in> set (map userclient_pk (userclient_rows w))
          \<and> DATETIME_MIN \<le> now + (case delta_ttl of Some d \<Rightarrow> d | None \<Rightarrow> token_ttl (userclient_client uc))
          \<and> now + (case delta_ttl of Some d \<Rightarrow> d | None \<Rightarrow> token_ttl (userclient_client uc)) \<le> DATETIME_MAX))"
proof -
  have 1: "create n sys now now_saved w uc delta_ttl = Inr (inst, w') \<longrightarrow>
      expiry inst = now + (case delta_ttl of Some d \<Rightarrow> d | None \<Rightarrow> token_ttl (userclient_client uc))
      \<and> created inst = now_saved
      \<and> userclient inst = Some uc
      \<and> Inr (token inst) = create_token_string n sys
      \<and> authtoken_rows w' = authtoken_rows w @ [inst]"
    unfolding create_Inr by auto
  have 2: "(\<exists>i v. create n sys now now_saved w uc delta_ttl = Inr (i, v)) =
       (\<exists>tok. create_token_string n sys = Inr tok
          \<and> tok \<notin> set (map token (authtoken_rows w))
          \<and> Some (userclient_pk uc) \<notin> set (map owner (authtoken_rows w))
          \<and> userclient_pk uc \<in> set (map userclient_pk (userclient_rows w))
          \<and> DATETIME_MIN \<le> now + (case delta_ttl of Some d \<Rightarrow> d | None \<Rightarrow> token_ttl (userclient_client uc))
          \<and> now + (case delta_ttl of Some d \<Rightarrow> d | None \<Rightarrow> token_ttl (userclient_client uc)) \<le> DATETIME_MAX)"
    unfolding create_Inr by blast
  from 1 2 show ?thesis by auto
qed

theorem create_expiry_witness:
  "create 4 example_system 1000000 1000001 example_world example_link None
     = Inr (\<lparr>authtoken_pk = 1, token = ''0aff'', created = 1000001, expiry = 86401000000,
             userclient = Some example_link\<rparr>,
            example_world\<lparr>authtoken_rows :=
              [\<lparr>authtoken_pk = 1, token = ''0aff'', created = 1000001, expiry = 86401000000,
                userclient = Some example_link\<rparr>], authtoken_sequence := 1\<rparr>)
   \<and> create 4 example_system 1000000 1000001 example_world example_link (Some 864000000000)
     = Inr (example_token, example_world\<lparr>authtoken_rows := [example_token], authtoken_sequence := 1\<rparr>)
   \<and> token_ttl (userclient_client example_link) = 86400000000
   \<and> expiry example_token - created example_token = 864000000000 - 1
   \<and> \<bar>(expiry example_token - created example_token) - 864000000000\<bar> \<le> 1"
proof -
  let ?t = "\<lparr>authtoken_pk = 1, token = ''0aff'', created = 1000001, expiry = 86401000000,
             userclient = Some example_link\<rparr>"
  have 1: "create 4 example_system 1000000 1000001 example_world example_link None
     = Inr (?t, example_world\<lparr>authtoken_rows := [?t], authtoken_sequence := 1\<rparr>)"
    by (simp add: create_def create_token_string_example datetime_add_def DATETIME_MIN_def
        DATETIME_MAX_def insert_authtoken_def Let_def  example_world_def example_link_def
        example_client_def)
  have 2: "create 4 example_system 1000000 1000001 example_world example_link (Some 864000000000)
     = Inr (example_token, example_world\<lparr>authtoken_rows := [example_token], authtoken_sequence := 1\<rparr>)"
    by (simp add: create_def create_token_string_example datetime_add_def DATETIME_MIN_def
        DATETIME_MAX_def insert_authtoken_def Let_def  example_world_def example_link_def
        example_client_def example_token_def)
  have 3: "token_ttl (userclient_client example_link) = 86400000000"
    by (simp add: example_link_def example_client_def)
  from create_expiry [of 4 example_system 1000000 1000001 example_world example_link
      "Some 864000000000" example_token "example_world\<lparr>authtoken_rows := [example_token], authtoken_sequence := 1\<rparr>" 1] 2
  have 4: "expiry example_token - created example_token = 864000000000 - 1
     \<and> \<bar>(expiry example_token - created example_token) - 864000000000\<bar> \<le> 1"
    by simp
  from 1 2 3 4 show ?thesis by simp
qed

text \<open>
  C3. A \<open>renew_token\<close> call that returns sets the expiry to the clock reading plus the
  \<open>token_ttl\<close> of the token's client, writes only the expiry column of the token's row,
  sends exactly one \<open>token_renewed\<close> signal carrying the sender, the token and the new
  expiry, and returns the new expiry. It returns exactly when the token has a link, the
  new expiry is a valid datetime and the token's row exists. No other operation changes
  a stored row: \<open>create\<close> appends one, \<open>revoke\<close> and the cascade only remove rows.
\<close>

theorem renew_token_effect:
  "(renew_token now w self renewed_by = Inr (e, self', w') \<longrightarrow>
      (\<exists>uc. userclient self = Some uc \<and> e = now + token_ttl (userclient_client uc))
      \<and> self' = self\<lparr>expiry := e\<rparr>
      \<and> authtoken_rows w' =
          map (\<lambda>r. if authtoken_pk r = authtoken_pk self then r\<lparr>expiry := e\<rparr> else r)
            (authtoken_rows w)
      \<and> userclient_rows w' = userclient_rows w
      \<and> signals_sent w' = signals_sent w
          @ [\<lparr>sender = renewed_by, signal_token = self', new_expiry = e\<rparr>])
   \<and> ((\<exists>r. renew_token now w self renewed_by = Inr r) =
       (\<exists>uc. userclient self = Some uc
          \<and> DATETIME_MIN \<le> now + token_ttl (userclient_client uc)
          \<and> now + token_ttl (userclient_client uc) \<le> DATETIME_MAX
          \<and> authtoken_pk self \<in> set (map authtoken_pk (authtoken_rows w))))
   \<and> (create n sys t t' w uc delta_ttl = Inr (inst, w1) \<longrightarrow>
        authtoken_rows w1 = authtoken_rows w @ [inst])
   \<and> set (authtoken_rows (revoke w tok)) \<subseteq> set (authtoken_rows w)
   \<and> set (authtoken_rows (delete_userclient w uc)) \<subseteq> set (authtoken_rows w)"
proof -
  have 1: "renew_token now w self renewed_by = Inr (e, self', w') \<longrightarrow>
      (\<exists>uc. userclient self = Some uc \<and> e = now + token_ttl (userclient_client uc))
      \<and> self' = self\<lparr>expiry := e\<rparr>
      \<and> authtoken_rows w' =
          map (\<lambda>r. if authtoken_pk r = authtoken_pk self then r\<lparr>expiry := e\<rparr> else r)
            (authtoken_rows w)
      \<and> userclient_rows w' = userclient_rows w
      \<and> signals_sent w' = signals_sent w
          @ [\<lparr>sender = renewed_by, signal_token = self', new_expiry = e\<rparr>]"
    unfolding renew_token_Inr by auto
  have 2: "(\<exists>r. renew_token now w self renewed_by = Inr r) =
       (\<exists>uc. userclient self = Some uc
          \<and> DATETIME_MIN \<le> now + token_ttl (userclient_client uc)
          \<and> now + token_ttl (userclient_client uc) \<le> DATETIME_MAX
          \<and> authtoken_pk self \<in> set (map authtoken_pk (authtoken_rows w)))"
  proof
    assume "\<exists>r. renew_token now w self renewed_by = Inr r"
    then obtain a b c where "renew_token now w self renewed_by = Inr (a, b, c)"
      by (metis prod_cases3)
    then show "\<exists>uc. userclient self = Some uc
          \<and> DATETIME_MIN \<le> now + token_ttl (userclient_client uc)
          \<and> now + token_ttl (userclient_client uc) \<le> DATETIME_MAX
          \<and> authtoken_pk self \<in> set (map authtoken_pk (authtoken_rows w))"
      unfolding renew_token_Inr by blast
  next
    assume "\<exists>uc. userclient self = Some uc
          \<and> DATETIME_MIN \<le> now + token_ttl (userclient_client uc)
          \<and> now + token_ttl (userclient_client uc) \<le> DATETIME_MAX
          \<and> authtoken_pk self \<in> set (map authtoken_pk (authtoken_rows w))"
    then have "\<exists>a b c. renew_token now w self renewed_by = Inr (a, b, c)"
      unfolding renew_token_Inr by blast
    then show "\<exists>r. renew_token now w self renewed_by = Inr r" by blast
  qed
  have 3: "create n sys t t' w uc delta_ttl = Inr (inst, w1) \<longrightarrow>
        authtoken_rows w1 = authtoken_rows w @ [inst]"
    unfolding create_Inr by auto
  have 4: "set (authtoken_rows (revoke w tok)) \<subseteq> set (authtoken_rows w)"
    by (auto simp: revoke_def)
  have 5: "set (authtoken_rows (delete_userclient w uc)) \<subseteq> set (authtoken_rows w)"
    by (auto simp: delete_userclient_def)
  from 1 2 3 4 5 show ?thesis by blast
qed

theorem renew_token_effect_witness:
  "renew_token 2000000 (example_world\<lparr>authtoken_rows := [example_token_plain], authtoken_sequence := 1\<rparr>)
     example_token_plain ''view''
   = Inr (86402000000, example_token_plain\<lparr>expiry := 86402000000\<rparr>,
          example_world\<lparr>authtoken_rows := [example_token_plain\<lparr>expiry := 86402000000\<rparr>], authtoken_sequence := 1,
            signals_sent := [\<lparr>sender = ''view'',
              signal_token = example_token_plain\<lparr>expiry := 86402000000\<rparr>,
              new_expiry = 86402000000\<rparr>]\<rparr>)
   \<and> userclient example_token_plain = Some example_link
   \<and> 2000000 + token_ttl (userclient_client example_link) = 86402000000
   \<and> signals_sent (example_world\<lparr>authtoken_rows := [example_token_plain], authtoken_sequence := 1\<rparr>) = []"
proof -
  note r = renew_example_plain
  from renew_token_effect [of 2000000 "example_world\<lparr>authtoken_rows := [example_token_plain], authtoken_sequence := 1\<rparr>"
      example_token_plain "''view''" 86402000000 "example_token_plain\<lparr>expiry := 86402000000\<rparr>"
      "example_world\<lparr>authtoken_rows := [example_token_plain\<lparr>expiry := 86402000000\<rparr>], authtoken_sequence := 1,
            signals_sent := [\<lparr>sender = ''view'',
              signal_token = example_token_plain\<lparr>expiry := 86402000000\<rparr>,
              new_expiry = 86402000000\<rparr>]\<rparr>"] r
  have "\<exists>uc. userclient example_token_plain = Some uc
      \<and> 86402000000 = 2000000 + token_ttl (userclient_client uc)"
    by blast
  then have "userclient example_token_plain = Some example_link
      \<and> 2000000 + token_ttl (userclient_client example_link) = 86402000000"
    by (auto simp: example_token_plain_def)
  with r show ?thesis by (simp add: example_world_def)
qed

text \<open>
  C5 (amended). A \<open>renew_token\<close> call that returns sets the expiry to the clock reading
  plus the client's \<open>token_ttl\<close>; this is later than the previous expiry exactly when the
  previous expiry is earlier than that sum, and, for a previous expiry that was set from
  the same \<open>token_ttl\<close>, exactly when the clock reading is later than the one used then.
  Two calls in succession send exactly two signals; their expiries differ by the time
  between the two clock readings, so the second is later exactly when the clock advanced.
\<close>

theorem renew_token_twice:
  assumes "renew_token t1 w self by1 = Inr (e1, self1, w1)"
    and "renew_token t2 w1 self1 by2 = Inr (e2, self2, w2)"
  shows "signals_sent w2 = signals_sent w
           @ [\<lparr>sender = by1, signal_token = self1, new_expiry = e1\<rparr>,
              \<lparr>sender = by2, signal_token = self2, new_expiry = e2\<rparr>]
     \<and> expiry self1 = e1 \<and> expiry self2 = e2
     \<and> e2 - e1 = t2 - t1
     \<and> (e1 < e2) = (t1 < t2)
     \<and> (\<exists>uc. userclient self = Some uc \<and> e1 = t1 + token_ttl (userclient_client uc)
          \<and> (expiry self < e1) = (expiry self < t1 + token_ttl (userclient_client uc))
          \<and> (\<forall>t0. expiry self = t0 + token_ttl (userclient_client uc)
                \<longrightarrow> (expiry self < e1) = (t0 < t1)))"
proof -
  from assms(1) obtain uc where
    uc: "userclient self = Some uc" and
    e1: "e1 = t1 + token_ttl (userclient_client uc)" and
    self1: "self1 = self\<lparr>expiry := e1\<rparr>" and
    s1: "signals_sent w1 = signals_sent w @ [\<lparr>sender = by1, signal_token = self1, new_expiry = e1\<rparr>]"
    unfolding renew_token_Inr by auto
  from assms(2) obtain uc' where
    uc': "userclient self1 = Some uc'" and
    e2: "e2 = t2 + token_ttl (userclient_client uc')" and
    self2: "self2 = self1\<lparr>expiry := e2\<rparr>" and
    s2: "signals_sent w2 = signals_sent w1 @ [\<lparr>sender = by2, signal_token = self2, new_expiry = e2\<rparr>]"
    unfolding renew_token_Inr by auto
  have same: "uc' = uc" using uc uc' self1 by simp
  have a: "signals_sent w2 = signals_sent w
           @ [\<lparr>sender = by1, signal_token = self1, new_expiry = e1\<rparr>,
              \<lparr>sender = by2, signal_token = self2, new_expiry = e2\<rparr>]"
    by (simp add: s1 s2)
  have b: "expiry self1 = e1 \<and> expiry self2 = e2"
    by (simp add: self1 self2)
  have c: "e2 - e1 = t2 - t1 \<and> (e1 < e2) = (t1 < t2)"
    by (auto simp: e1 e2 same)
  have d: "\<forall>t0. expiry self = t0 + token_ttl (userclient_client uc) \<longrightarrow> (expiry self < e1) = (t0 < t1)"
    by (auto simp: e1)
  have f: "\<exists>uc. userclient self = Some uc \<and> e1 = t1 + token_ttl (userclient_client uc)
          \<and> (expiry self < e1) = (expiry self < t1 + token_ttl (userclient_client uc))
          \<and> (\<forall>t0. expiry self = t0 + token_ttl (userclient_client uc)
                \<longrightarrow> (expiry self < e1) = (t0 < t1))"
    using uc d by (intro exI [of _ uc]) (simp add: e1)
  show ?thesis
    using a b c f by (elim conjE, intro conjI) assumption+
qed

theorem renew_token_twice_witness:
  "renew_token 2000000 (example_world\<lparr>authtoken_rows := [example_token_plain], authtoken_sequence := 1\<rparr>)
     example_token_plain ''view''
   = Inr (86402000000, example_token_plain\<lparr>expiry := 86402000000\<rparr>,
          example_world\<lparr>authtoken_rows := [example_token_plain\<lparr>expiry := 86402000000\<rparr>], authtoken_sequence := 1,
            signals_sent := [\<lparr>sender = ''view'',
              signal_token = example_token_plain\<lparr>expiry := 86402000000\<rparr>,
              new_expiry = 86402000000\<rparr>]\<rparr>)
   \<and> renew_token 3000000
     (example_world\<lparr>authtoken_rows := [example_token_plain\<lparr>expiry := 86402000000\<rparr>], authtoken_sequence := 1,
            signals_sent := [\<lparr>sender = ''view'',
              signal_token = example_token_plain\<lparr>expiry := 86402000000\<rparr>,
              new_expiry = 86402000000\<rparr>]\<rparr>)
     (example_token_plain\<lparr>expiry := 86402000000\<rparr>) ''admin''
   = Inr (86403000000, example_token_plain\<lparr>expiry := 86403000000\<rparr>,
          example_world\<lparr>authtoken_rows := [example_token_plain\<lparr>expiry := 86403000000\<rparr>], authtoken_sequence := 1,
            signals_sent := [\<lparr>sender = ''view'',
              signal_token = example_token_plain\<lparr>expiry := 86402000000\<rparr>,
              new_expiry = 86402000000\<rparr>,
              \<lparr>sender = ''admin'',
              signal_token = example_token_plain\<lparr>expiry := 86403000000\<rparr>,
              new_expiry = 86403000000\<rparr>]\<rparr>)
   \<and> (86403000000 :: int) - 86402000000 = 3000000 - 2000000
   \<and> expiry example_token_plain < 86402000000"
proof -
  from renew_token_twice [OF renew_example_plain renew_example_plain_again]
  have "(86403000000 :: int) - 86402000000 = 3000000 - 2000000" by blast
  moreover have "expiry example_token_plain < 86402000000"
    by (simp add: example_token_plain_def)
  ultimately show ?thesis
    using renew_example_plain renew_example_plain_again by simp
qed

text \<open>
  The claim as first stated has every renewal increase the expiry. A token issued with
  a TTL override of ten days for a client whose \<open>token_ttl\<close> is one day loses nine days
  on its first renewal.
\<close>

theorem renew_token_decrease_counterexample:
  "create 4 example_system 1000000 1000001 example_world example_link (Some 864000000000)
     = Inr (example_token, example_world\<lparr>authtoken_rows := [example_token], authtoken_sequence := 1\<rparr>)
   \<and> expiry example_token = 864001000000
   \<and> renew_token 2000000 (example_world\<lparr>authtoken_rows := [example_token], authtoken_sequence := 1\<rparr>) example_token ''view''
     = Inr (86402000000, example_token\<lparr>expiry := 86402000000\<rparr>,
          example_world\<lparr>authtoken_rows := [example_token\<lparr>expiry := 86402000000\<rparr>], authtoken_sequence := 1,
            signals_sent := [\<lparr>sender = ''view'',
              signal_token = example_token\<lparr>expiry := 86402000000\<rparr>,
              new_expiry = 86402000000\<rparr>]\<rparr>)
   \<and> (86402000000 :: int) < 864001000000"
proof -
  have 1: "create 4 example_system 1000000 1000001 example_world example_link (Some 864000000000)
     = Inr (example_token, example_world\<lparr>authtoken_rows := [example_token], authtoken_sequence := 1\<rparr>)"
    by (simp add: create_def create_token_string_example datetime_add_def DATETIME_MIN_def
        DATETIME_MAX_def insert_authtoken_def Let_def  example_world_def example_link_def
        example_client_def example_token_def)
  have 2: "renew_token 2000000 (example_world\<lparr>authtoken_rows := [example_token], authtoken_sequence := 1\<rparr>) example_token ''view''
     = Inr (86402000000, example_token\<lparr>expiry := 86402000000\<rparr>,
          example_world\<lparr>authtoken_rows := [example_token\<lparr>expiry := 86402000000\<rparr>], authtoken_sequence := 1,
            signals_sent := [\<lparr>sender = ''view'',
              signal_token = example_token\<lparr>expiry := 86402000000\<rparr>,
              new_expiry = 86402000000\<rparr>]\<rparr>)"
    by (simp add: renew_token_def datetime_add_def DATETIME_MIN_def DATETIME_MAX_def
      save_expiry_def Let_def example_world_def example_token_def example_link_def
      example_client_def)
  have 3: "expiry example_token = 864001000000" by (simp add: example_token_def)
  from 1 2 3 show ?thesis by simp
qed

text \<open>
  C9. Reading \<open>has_expired\<close> gives true exactly when the clock reading of the read is
  later than the token's expiry. The read leaves the token as it was, and every read is
  evaluated against its own clock reading, whatever an earlier read returned: the same
  token is not expired at the reading of its expiry and expired one microsecond later.
\<close>

theorem has_expired_iff:
  "fst (has_expired now self) = (expiry self < now)
   \<and> snd (has_expired now self) = self
   \<and> fst (has_expired later (snd (has_expired now self))) = (expiry self < later)
   \<and> \<not> fst (has_expired (expiry self) self)
   \<and> fst (has_expired (expiry self + 1) (snd (has_expired (expiry self) self)))"
  by (simp add: has_expired_def py_property_def)

section \<open>Tokens and links\<close>

text \<open>
  C6. In a state where every token row points at exactly one stored link and no link is
  pointed at by two token rows, this still holds after every \<open>create\<close> and \<open>renew_token\<close>
  that returns, after every \<open>revoke\<close>, and after a link is deleted; deleting a link leaves
  no token that points at it, and \<open>create\<close> never returns a second token for a link that
  owns one.
\<close>

theorem link_invariant_preserved:
  assumes "link_invariant w"
  shows "(create n sys now now_saved w uc delta_ttl = Inr (inst, w1) \<longrightarrow> link_invariant w1)
     \<and> (renew_token now w self renewed_by = Inr (e, self', w2) \<longrightarrow> link_invariant w2)
     \<and> link_invariant (revoke w tok)
     \<and> link_invariant (delete_userclient w uc)
     \<and> (\<forall>t \<in> set (authtoken_rows (delete_userclient w uc)). owner t \<noteq> Some (userclient_pk uc))
     \<and> (\<forall>t \<in> set (authtoken_rows w).
          \<exists>!l. l \<in> set (userclient_rows w) \<and> owner t = Some (userclient_pk l))
     \<and> (\<forall>l \<in> set (userclient_rows w).
          length (filter (\<lambda>t. owner t = Some (userclient_pk l)) (authtoken_rows w)) \<le> 1)
     \<and> (Some (userclient_pk uc) \<in> set (map owner (authtoken_rows w)) \<longrightarrow>
          create n sys now now_saved w uc delta_ttl \<noteq> Inr (inst, w1))"
proof -
  have 1: "create n sys now now_saved w uc delta_ttl = Inr (inst, w1) \<longrightarrow> link_invariant w1"
    using assms link_invariant_create by blast
  have 2: "renew_token now w self renewed_by = Inr (e, self', w2) \<longrightarrow> link_invariant w2"
    using assms link_invariant_renew by blast
  have 5: "\<forall>t \<in> set (authtoken_rows (delete_userclient w uc)). owner t \<noteq> Some (userclient_pk uc)"
    by (simp add: delete_userclient_def)
  have 6: "\<forall>t \<in> set (authtoken_rows w).
          \<exists>!l. l \<in> set (userclient_rows w) \<and> owner t = Some (userclient_pk l)"
    using assms unique_link by blast
  have "distinct (map owner (authtoken_rows w))"
    using assms by (simp add: link_invariant_def)
  then have 7: "\<forall>l \<in> set (userclient_rows w).
          length (filter (\<lambda>t. owner t = Some (userclient_pk l)) (authtoken_rows w)) \<le> 1"
    by (intro ballI) (rule filter_owner_le_1)
  have 8: "Some (userclient_pk uc) \<in> set (map owner (authtoken_rows w)) \<longrightarrow>
          create n sys now now_saved w uc delta_ttl \<noteq> Inr (inst, w1)"
    unfolding create_Inr by blast
  from 1 2 5 6 7 8 link_invariant_revoke [OF assms] link_invariant_delete_userclient [OF assms]
  show ?thesis by blast
qed

theorem link_invariant_preserved_witness:
  "link_invariant example_world
   \<and> create 4 example_system 1000000 1000001 example_world example_link None
       = Inr (example_token_plain, example_world\<lparr>authtoken_rows := [example_token_plain], authtoken_sequence := 1\<rparr>)
   \<and> link_invariant (example_world\<lparr>authtoken_rows := [example_token_plain], authtoken_sequence := 1\<rparr>)
   \<and> create 4 \<lparr>entropy = (\<lambda>i. 0), memory = 1024\<rparr> 1000000 1000001 (example_world\<lparr>authtoken_rows := [example_token_plain], authtoken_sequence := 1\<rparr>)
        example_link None = Inl IntegrityError
   \<and> revoke (example_world\<lparr>authtoken_rows := [example_token_plain], authtoken_sequence := 1\<rparr>) example_token_plain
       = example_world\<lparr>authtoken_sequence := 1\<rparr>
   \<and> delete_userclient (example_world\<lparr>authtoken_rows := [example_token_plain], authtoken_sequence := 1\<rparr>) example_link
       = \<lparr>userclient_rows = [], authtoken_rows = [], authtoken_sequence = 1, signals_sent = []\<rparr>
   \<and> link_invariant \<lparr>userclient_rows = [], authtoken_rows = [], authtoken_sequence = 1, signals_sent = []\<rparr>"
proof -
  have i0: "link_invariant example_world"
    by (simp add: link_invariant_def example_world_def)
  have c: "create 4 example_system 1000000 1000001 example_world example_link None
       = Inr (example_token_plain, example_world\<lparr>authtoken_rows := [example_token_plain], authtoken_sequence := 1\<rparr>)"
    by (simp add: create_def create_token_string_example datetime_add_def DATETIME_MIN_def
        DATETIME_MAX_def insert_authtoken_def Let_def  example_world_def example_link_def
        example_client_def example_token_plain_def)
  from link_invariant_preserved [OF i0, where n = 4 and sys = example_system
      and now = 1000000 and now_saved = 1000001 and uc = example_link and delta_ttl = None
      and inst = example_token_plain
      and ?w1.0 = "example_world\<lparr>authtoken_rows := [example_token_plain], authtoken_sequence := 1\<rparr>"] c
  have i1: "link_invariant (example_world\<lparr>authtoken_rows := [example_token_plain], authtoken_sequence := 1\<rparr>)"
    by blast
  have c2: "create 4 \<lparr>entropy = (\<lambda>i. 0), memory = 1024\<rparr> 1000000 1000001 (example_world\<lparr>authtoken_rows := [example_token_plain], authtoken_sequence := 1\<rparr>)
        example_link None = Inl IntegrityError"
    by (simp add: create_def create_token_string_def int_truediv_2_def float_round_def urandom_def
        alloc_bytes_def binascii_hexlify_def decode_def PY_SSIZE_T_MAX_def
        hexlify_def hex_chr_def upt_rec datetime_add_def DATETIME_MIN_def
        DATETIME_MAX_def insert_authtoken_def Let_def owner_def example_world_def example_link_def
        example_client_def example_token_plain_def)
  have r: "revoke (example_world\<lparr>authtoken_rows := [example_token_plain], authtoken_sequence := 1\<rparr>) example_token_plain
       = example_world\<lparr>authtoken_sequence := 1\<rparr>"
    by (simp add: revoke_def example_world_def)
  have d: "delete_userclient (example_world\<lparr>authtoken_rows := [example_token_plain], authtoken_sequence := 1\<rparr>) example_link
       = \<lparr>userclient_rows = [], authtoken_rows = [], authtoken_sequence = 1, signals_sent = []\<rparr>"
    by (simp add: delete_userclient_def example_world_def owner_def example_token_plain_def)
  from link_invariant_preserved [OF i1, where uc = example_link]
  have i2: "link_invariant (delete_userclient (example_world\<lparr>authtoken_rows := [example_token_plain], authtoken_sequence := 1\<rparr>) example_link)"
    by blast
  from i0 c i1 c2 r d i2 show ?thesis by simp
qed

end
